theory Spec2Isabelle
  imports Complex_Main "HOL-Library.Sublist"
begin

section \<open>Data model (src/types/data.ts)\<close>

text \<open>
  A JavaScript number is modelled as a \<^typ>\<open>real\<close>: the datasets are parsed JSON, so no
  NaN or infinity occurs in them, and floating-point rounding is abstracted away.
  A JavaScript object is an association list of its own properties in key iteration
  order; \<open>getProp o k\<close> is the own property \<open>k\<close> of \<open>o\<close>, with \<open>None\<close> for
  \<open>undefined\<close>. A value that is \<open>null\<close> until its file is loaded is an \<open>option\<close>.
\<close>

type_synonym 'v obj = "(string \<times> 'v) list"

definition getProp :: "'v obj \<Rightarrow> string \<Rightarrow> 'v option" where
  "getProp ob k = map_of ob k"

definition Object_keys :: "'v obj \<Rightarrow> string list" where
  "Object_keys ob = map fst ob"

definition Object_entries :: "'v obj \<Rightarrow> (string \<times> 'v) list" where
  "Object_entries ob = ob"

text \<open>
  \<^const>\<open>getProp\<close> looks among the object's own keys only. A read \<open>o[k]\<close> of a parsed JSON
  object follows the prototype chain: when \<open>k\<close> is no own key but names a property of
  \<open>Object.prototype\<close>, the read yields that inherited value, a function (for
  \<open>__proto__\<close> the prototype object itself). Such a value is truthy, has no enumerable
  property of its own, and has no property named by the digits of a year.

  \<open>readProp\<close> is the read that follows the chain. It models \<open>consumers[iso3]\<close>,
  \<open>commodities[commodity]\<close> and \<open>transportFactors[commodity]\<close>, whose key is the entity
  named in the URL and can be any string. Every other read of the views has a key that is
  never an inherited name, so that \<^const>\<open>getProp\<close> is the read: the digits of a year; the
  fixed names \<open>all\<close>, \<open>land\<close>, \<open>maritime\<close>, \<open>air\<close>; a commodity chosen from the keys
  of the flow table itself; and the country codes that the datasets hold.
\<close>

datatype 'v lookup = Own 'v | Inherited

definition Object_prototype_names :: "string list" where
  "Object_prototype_names =
     [''constructor'', ''hasOwnProperty'', ''isPrototypeOf'', ''propertyIsEnumerable'',
      ''toLocaleString'', ''toString'', ''valueOf'', ''__proto__'',
      ''__defineGetter__'', ''__defineSetter__'', ''__lookupGetter__'', ''__lookupSetter__'']"

definition readProp :: "'v obj \<Rightarrow> string \<Rightarrow> 'v lookup option" where
  "readProp ob k =
     (case getProp ob k of
        Some v \<Rightarrow> Some (Own v)
      | None \<Rightarrow> if k \<in> set Object_prototype_names then Some Inherited else None)"

text \<open>\<open>v[yearStr]\<close> for a value read from a dataset and the digits of a year.\<close>

definition readYear :: "'v obj lookup \<Rightarrow> string \<Rightarrow> 'v option" where
  "readYear p yearStr = (case p of Own ob \<Rightarrow> getProp ob yearStr | Inherited \<Rightarrow> None)"

text \<open>
  A value read from a table, as the object of its enumerable own properties, which is
  what \<open>Object.entries\<close> lists: an inherited value has none.
\<close>

definition ownProps :: "'v obj lookup \<Rightarrow> 'v obj" where
  "ownProps p = (case p of Own ob \<Rightarrow> ob | Inherited \<Rightarrow> [])"

text \<open>The operator \<open>a ?? b\<close>; optional chaining \<open>a?.b\<close> is \<^const>\<open>Option.bind\<close>.\<close>

definition nullish :: "'a option \<Rightarrow> 'a \<Rightarrow> 'a" where
  "nullish a b = (case a of None \<Rightarrow> b | Some v \<Rightarrow> v)"

text \<open>
  \<open>RouteEmissions\<close>; the field \<open>value\<close> is named \<open>val\<close> here.
  \<open>CommodityRouteData\<close> is the same record without \<open>wtt\<close> and \<open>cost\<close>, which no
  view reads, so the commodity dataset uses this record too.
\<close>

record RouteEmissions =
  wtw :: real
  ttw :: real
  wtt :: real
  food_miles :: real
  val :: real
  cost :: "real option"

record YearEntry =
  bilateral :: "RouteEmissions option"
  domestic :: "RouteEmissions option"

type_synonym CountryYearData = "YearEntry obj"
type_synonym ConsumerCountries = "CountryYearData obj"
type_synonym Commodities = "CountryYearData obj"

record BilateralFlow =
  flow_from :: string
  flow_to :: string
  flow_wtw :: real
  flow_ttw :: real
  flow_wtt :: real
  flow_food_miles :: real
  flow_cost :: real
  n_commodities :: real
  dominant_mode :: string

type_synonym BilateralTopFlows = "BilateralFlow list obj obj"
type_synonym BilateralByCommodity = "BilateralFlow list obj obj"

record TransportModeFactor =
  tf_wtw :: real
  tf_ttw :: real
  distance :: real
  routes :: real

type_synonym TransportFactors = "TransportModeFactor obj obj"

record CountryMeta =
  name :: string
  lat :: real
  lng :: real
  region :: string

type_synonym CountryMetadata = "CountryMeta obj"

section \<open>Numbers and strings\<close>

text \<open>\<open>String(n)\<close> for a non-negative integer: its decimal digits.\<close>

definition digit_char :: "nat \<Rightarrow> char" where
  "digit_char d = ''0123456789'' ! d"

fun String_num :: "nat \<Rightarrow> string" where
  "String_num n =
     (if n < 10 then [digit_char n] else String_num (n div 10) @ [digit_char (n mod 10)])"

declare String_num.simps [simp del]

text \<open>\<open>Math.round\<close> rounds to the nearest integer, a half upwards; \<open>Math.floor\<close>.\<close>

definition Math_round :: "real \<Rightarrow> int" where
  "Math_round x = \<lfloor>x + 1 / 2\<rfloor>"

definition Math_floor :: "real \<Rightarrow> int" where
  "Math_floor x = \<lfloor>x\<rfloor>"

text \<open>A number used as a condition is true unless it is zero.\<close>

definition truthy_num :: "real \<Rightarrow> bool" where
  "truthy_num x = (x \<noteq> 0)"

section \<open>Metric resolution (CountryExplorer.tsx 36-43, CommodityExplorer.tsx 35-41)\<close>

definition countryData ::
  "ConsumerCountries option \<Rightarrow> string \<Rightarrow> CountryYearData lookup option" where
  "countryData consumers iso3 = Option.bind consumers (\<lambda>c. readProp c iso3)"

definition yd :: "CountryYearData lookup option \<Rightarrow> string \<Rightarrow> YearEntry option" where
  "yd cData yearStr = Option.bind cData (\<lambda>c. readYear c yearStr)"

definition bilTtw :: "YearEntry option \<Rightarrow> real" where
  "bilTtw y = nullish (map_option ttw (Option.bind y bilateral)) 0"

definition domTtw :: "YearEntry option \<Rightarrow> real" where
  "domTtw y = nullish (map_option ttw (Option.bind y domestic)) 0"

definition totalTtw :: "YearEntry option \<Rightarrow> real" where
  "totalTtw y = bilTtw y + domTtw y"

definition totalFm :: "YearEntry option \<Rightarrow> real" where
  "totalFm y = nullish (map_option food_miles (Option.bind y bilateral)) 0
             + nullish (map_option food_miles (Option.bind y domestic)) 0"

text \<open>The four values the explorer views compute for the selected entity and year.\<close>

record Resolved =
  r_bilateral :: real
  r_domestic :: real
  r_total :: real
  r_foodMiles :: real

definition resolve :: "ConsumerCountries option \<Rightarrow> string \<Rightarrow> nat \<Rightarrow> Resolved" where
  "resolve consumers iso3 selectedYear =
     (let yearStr = String_num selectedYear;
          y = yd (countryData consumers iso3) yearStr
      in \<lparr>r_bilateral = bilTtw y, r_domestic = domTtw y,
          r_total = totalTtw y, r_foodMiles = totalFm y\<rparr>)"

text \<open>Every \<open>ttw\<close> in a dataset is non-negative.\<close>

definition nonneg_entry :: "YearEntry \<Rightarrow> bool" where
  "nonneg_entry e =
     ((case bilateral e of None \<Rightarrow> True | Some r \<Rightarrow> 0 \<le> ttw r) \<and>
      (case domestic e of None \<Rightarrow> True | Some r \<Rightarrow> 0 \<le> ttw r))"

definition nonneg_dataset :: "ConsumerCountries \<Rightarrow> bool" where
  "nonneg_dataset c = list_all (\<lambda>(k, cd). list_all (\<lambda>(y, e). nonneg_entry e) cd) c"

definition nonneg_loaded :: "ConsumerCountries option \<Rightarrow> bool" where
  "nonneg_loaded consumers = (case consumers of None \<Rightarrow> True | Some c \<Rightarrow> nonneg_dataset c)"

section \<open>Arrays\<close>

text \<open>
  \<open>Array.prototype.sort\<close> with a comparator is stable (ECMAScript 2019), and for a
  consistent comparator its result is ordered by it; the stable ordering of a list is
  unique, so the insertion sort below computes what every conforming engine returns.
  \<open>cmp a b \<le> 0\<close> keeps \<open>a\<close> in front of \<open>b\<close>.
\<close>

fun insert_sorted :: "('a \<Rightarrow> 'a \<Rightarrow> real) \<Rightarrow> 'a \<Rightarrow> 'a list \<Rightarrow> 'a list" where
  "insert_sorted cmp x [] = [x]"
| "insert_sorted cmp x (y # ys) =
     (if cmp x y \<le> 0 then x # y # ys else y # insert_sorted cmp x ys)"

definition Array_sort :: "('a \<Rightarrow> 'a \<Rightarrow> real) \<Rightarrow> 'a list \<Rightarrow> 'a list" where
  "Array_sort cmp xs = foldr (insert_sorted cmp) xs []"

text \<open>\<open>arr.slice(0, n)\<close> is \<^term>\<open>take n arr\<close>; \<open>arr.findIndex(p)\<close> is \<open>-1\<close> when no element passes.\<close>

fun findIndex :: "('a \<Rightarrow> bool) \<Rightarrow> 'a list \<Rightarrow> int" where
  "findIndex p [] = - 1"
| "findIndex p (x # xs) =
     (if p x then 0 else (let r = findIndex p xs in if r < 0 then - 1 else r + 1))"

text \<open>\<open>arr[i]\<close> for an integer \<open>i\<close>: \<open>undefined\<close> (\<open>None\<close>) outside the array.\<close>

definition index_opt :: "'a list \<Rightarrow> int \<Rightarrow> 'a option" where
  "index_opt arr i = (if 0 \<le> i \<and> i < int (length arr) then Some (arr ! nat i) else None)"

section \<open>Time series (CountryExplorer.tsx 46-57, CommodityExplorer.tsx 44-55)\<close>

record SeriesPoint =
  year :: nat
  Domestic :: int
  International :: int

text \<open>The expression \<open>r?.ttw ? Math.round(r.ttw / 1e3) : 0\<close>.\<close>

definition rounded_thousands :: "RouteEmissions option \<Rightarrow> int" where
  "rounded_thousands r =
     (case map_option ttw r of
        None \<Rightarrow> 0
      | Some t \<Rightarrow> if truthy_num t then Math_round (t / 1000) else 0)"

definition timeSeries :: "CountryYearData lookup option \<Rightarrow> SeriesPoint list" where
  "timeSeries cData =
     (case cData of
        None \<Rightarrow> []
      | Some cd \<Rightarrow>
          map (\<lambda>i. let y = 2010 + i;
                       d = readYear cd (String_num y)
                   in \<lparr>year = y,
                       Domestic = rounded_thousands (Option.bind d domestic),
                       International = rounded_thousands (Option.bind d bilateral)\<rparr>)
              [0..<14])"

section \<open>Top trade partners (CountryExplorer.tsx 66-85)\<close>

definition getCountryName :: "CountryMetadata option \<Rightarrow> string \<Rightarrow> string" where
  "getCountryName countryMeta iso3 =
     nullish (map_option name (Option.bind countryMeta (\<lambda>m. getProp m iso3))) iso3"

record Partner =
  p_name :: string
  p_ttw :: real
  p_iso3 :: string

text \<open>The objects the two \<open>map\<close> calls build from a flow.\<close>

definition sourceEntry :: "CountryMetadata option \<Rightarrow> BilateralFlow \<Rightarrow> Partner" where
  "sourceEntry countryMeta f =
     \<lparr>p_name = getCountryName countryMeta (flow_from f), p_ttw = flow_ttw f, p_iso3 = flow_from f\<rparr>"

definition destEntry :: "CountryMetadata option \<Rightarrow> BilateralFlow \<Rightarrow> Partner" where
  "destEntry countryMeta f =
     \<lparr>p_name = getCountryName countryMeta (flow_to f), p_ttw = flow_ttw f, p_iso3 = flow_to f\<rparr>"

text \<open>The expression \<open>bilateral[yearStr]?.all ?? []\<close>.\<close>

definition allBucket :: "BilateralTopFlows \<Rightarrow> string \<Rightarrow> BilateralFlow list" where
  "allBucket b yearStr = nullish (Option.bind (getProp b yearStr) (\<lambda>m. getProp m ''all'')) []"

definition topSources ::
  "CountryMetadata option \<Rightarrow> BilateralTopFlows option \<Rightarrow> string \<Rightarrow> string \<Rightarrow> Partner list" where
  "topSources countryMeta bilateral' yearStr iso3 =
     (case bilateral' of
        None \<Rightarrow> []
      | Some b \<Rightarrow>
          (let flows = allBucket b yearStr
           in map (sourceEntry countryMeta)
                (take 10 (Array_sort (\<lambda>a b. flow_ttw b - flow_ttw a)
                            (filter (\<lambda>f. flow_to f = iso3) flows)))))"

definition topDest ::
  "CountryMetadata option \<Rightarrow> BilateralTopFlows option \<Rightarrow> string \<Rightarrow> string \<Rightarrow> Partner list" where
  "topDest countryMeta bilateral' yearStr iso3 =
     (case bilateral' of
        None \<Rightarrow> []
      | Some b \<Rightarrow>
          (let flows = allBucket b yearStr
           in map (destEntry countryMeta)
                (take 10 (Array_sort (\<lambda>a b. flow_ttw b - flow_ttw a)
                            (filter (\<lambda>f. flow_from f = iso3) flows)))))"

section \<open>International share (GlobalOverview, CountryExplorer.tsx 269-278)\<close>

text \<open>One pass of the \<open>for\<close> loop over the keys; the state is \<open>(bilateral, total)\<close>.\<close>

definition intlShare_body ::
  "ConsumerCountries \<Rightarrow> nat \<Rightarrow> string \<Rightarrow> real \<times> real \<Rightarrow> real \<times> real" where
  "intlShare_body consumers selectedYear iso3 acc =
     (let y = yd (readProp consumers iso3) (String_num selectedYear);
          acc1 = (case Option.bind y bilateral of
                    Some r \<Rightarrow> (fst acc + ttw r, snd acc + ttw r)
                  | None \<Rightarrow> acc);
          acc2 = (case Option.bind y domestic of
                    Some r \<Rightarrow> (fst acc1, snd acc1 + ttw r)
                  | None \<Rightarrow> acc1)
      in acc2)"

definition intlShare :: "ConsumerCountries option \<Rightarrow> nat \<Rightarrow> real" where
  "intlShare consumers selectedYear =
     (case consumers of
        None \<Rightarrow> 0
      | Some c \<Rightarrow>
          (let acc = fold (intlShare_body c selectedYear) (Object_keys c) (0, 0)
           in if snd acc > 0 then (fst acc / snd acc) * 100 else 0))"

text \<open>
  The sums as the specification words them: \<open>bilateral.ttw\<close> and \<open>domestic.ttw\<close>
  added over every entity of the dataset for the year, a missing term counting zero.
\<close>

definition bilateralSum :: "ConsumerCountries \<Rightarrow> nat \<Rightarrow> real" where
  "bilateralSum c selectedYear =
     sum_list (map (\<lambda>k. bilTtw (yd (readProp c k) (String_num selectedYear))) (Object_keys c))"

definition domesticSum :: "ConsumerCountries \<Rightarrow> nat \<Rightarrow> real" where
  "domesticSum c selectedYear =
     sum_list (map (\<lambda>k. domTtw (yd (readProp c k) (String_num selectedYear))) (Object_keys c))"

section \<open>Rankings (CountryExplorer.tsx 320-330, CommodityExplorer.tsx 87-97)\<close>

record ConsumerRow =
  tc_iso3 :: string
  tc_name :: string
  tc_ttw :: real

definition consumerRows :: "CountryMetadata option \<Rightarrow> ConsumerCountries \<Rightarrow> nat \<Rightarrow> ConsumerRow list" where
  "consumerRows countryMeta c selectedYear =
     map (\<lambda>(iso3, data).
            let y = getProp data (String_num selectedYear)
            in \<lparr>tc_iso3 = iso3, tc_name = getCountryName countryMeta iso3,
                tc_ttw = nullish (map_option ttw (Option.bind y bilateral)) 0
                       + nullish (map_option ttw (Option.bind y domestic)) 0\<rparr>)
         (Object_entries c)"

definition topConsumers :: "CountryMetadata option \<Rightarrow> ConsumerCountries option \<Rightarrow> nat \<Rightarrow> ConsumerRow list" where
  "topConsumers countryMeta consumers selectedYear =
     (case consumers of
        None \<Rightarrow> []
      | Some c \<Rightarrow>
          take 15 (Array_sort (\<lambda>a b. tc_ttw b - tc_ttw a)
                     (consumerRows countryMeta c selectedYear)))"

record RankedEntry =
  rk_name :: string
  rk_ttw :: real

record RankResult =
  rr_rank :: int
  rr_total :: nat

definition rankedRows :: "Commodities \<Rightarrow> string \<Rightarrow> RankedEntry list" where
  "rankedRows commodities yearStr =
     map (\<lambda>(nm, data).
            let d = getProp data yearStr
            in \<lparr>rk_name = nm,
                rk_ttw = nullish (map_option ttw (Option.bind d bilateral)) 0
                       + nullish (map_option ttw (Option.bind d domestic)) 0\<rparr>)
         (Object_entries commodities)"

text \<open>The local \<open>sorted\<close> of \<open>allRanked\<close>.\<close>

definition allRanked_sorted :: "Commodities \<Rightarrow> string \<Rightarrow> RankedEntry list" where
  "allRanked_sorted commodities yearStr =
     Array_sort (\<lambda>a b. rk_ttw b - rk_ttw a) (rankedRows commodities yearStr)"

definition allRanked :: "Commodities option \<Rightarrow> string \<Rightarrow> string \<Rightarrow> RankResult" where
  "allRanked commodities commodity yearStr =
     (case commodities of
        None \<Rightarrow> \<lparr>rr_rank = 0, rr_total = 0\<rparr>
      | Some c \<Rightarrow>
          (let sorted' = allRanked_sorted c yearStr;
               rank = findIndex (\<lambda>e. rk_name e = commodity) sorted' + 1
           in \<lparr>rr_rank = rank, rr_total = length sorted'\<rparr>))"

text \<open>
  The total as the specification words it: the count of entities with any data for
  the year, that is, with a record for it.
\<close>

definition spec_countWithData :: "Commodities \<Rightarrow> string \<Rightarrow> nat" where
  "spec_countWithData commodities yearStr =
     length (filter (\<lambda>(nm, data). getProp data yearStr \<noteq> None) commodities)"

section \<open>Flow filter (BilateralFlowMap, 32-55)\<close>

text \<open>A string used as a condition is true unless it is empty.\<close>

definition truthy_str :: "string \<Rightarrow> bool" where
  "truthy_str s = (s \<noteq> [])"

definition allFlows ::
  "BilateralTopFlows option \<Rightarrow> BilateralByCommodity option \<Rightarrow> string \<Rightarrow> string \<Rightarrow> string
     \<Rightarrow> BilateralFlow list" where
  "allFlows bilateral' bilateralByCommodity selectedCommodity yearStr modeFilter =
     (if truthy_str selectedCommodity \<and> bilateralByCommodity \<noteq> None
      then nullish (Option.bind (Option.bind bilateralByCommodity
                                   (\<lambda>byCommodity. getProp byCommodity selectedCommodity))
                      (\<lambda>ys. getProp ys yearStr)) []
      else (case Option.bind bilateral' (\<lambda>b. getProp b yearStr) of
              None \<Rightarrow> []
            | Some byMode \<Rightarrow> nullish (getProp byMode modeFilter) []))"

definition modeKept :: "string \<Rightarrow> BilateralFlow \<Rightarrow> bool" where
  "modeKept modeFilter f =
     (if modeFilter \<noteq> ''all'' \<and> dominant_mode f \<noteq> modeFilter then False else True)"

definition filteredFlows ::
  "BilateralFlow list \<Rightarrow> string \<Rightarrow> real \<Rightarrow> string \<Rightarrow> BilateralFlow list" where
  "filteredFlows allFlows' modeFilter minEmissions selectedCommodity =
     (let flows = (if truthy_str selectedCommodity
                   then filter (modeKept modeFilter) allFlows'
                   else allFlows')
      in take 100 (filter (\<lambda>f. flow_ttw f \<ge> minEmissions) flows))"

text \<open>What both filters of \<open>filteredFlows\<close> ask of a flow, taken together.\<close>

definition flowKept :: "string \<Rightarrow> string \<Rightarrow> real \<Rightarrow> BilateralFlow \<Rightarrow> bool" where
  "flowKept selectedCommodity modeFilter minEmissions f =
     ((truthy_str selectedCommodity \<longrightarrow> modeKept modeFilter f) \<and> flow_ttw f \<ge> minEmissions)"

text \<open>The two memoised steps together: the flows shown for the current controls.\<close>

definition filterFlows ::
  "BilateralTopFlows option \<Rightarrow> BilateralByCommodity option \<Rightarrow> string \<Rightarrow> string \<Rightarrow> string
     \<Rightarrow> real \<Rightarrow> BilateralFlow list" where
  "filterFlows bilateral' bilateralByCommodity selectedCommodity yearStr modeFilter minEmissions =
     filteredFlows (allFlows bilateral' bilateralByCommodity selectedCommodity yearStr modeFilter)
       modeFilter minEmissions selectedCommodity"

section \<open>Sequential colours (utils/colors.ts)\<close>

definition SEQUENTIAL_BLUE :: "string list" where
  "SEQUENTIAL_BLUE =
     [''#0a1628'', ''#0f2847'', ''#143a66'', ''#1a4d85'',
      ''#2060a5'', ''#2874c5'', ''#3a8ee5'', ''#4A9EFF'']"

definition getSequentialColor :: "real \<Rightarrow> real \<Rightarrow> real \<Rightarrow> string option" where
  "getSequentialColor v mn mx =
     (if mx = mn then index_opt SEQUENTIAL_BLUE 4
      else (let ratio = min 1 (max 0 ((v - mn) / (mx - mn)));
                index = Math_floor (ratio * (real (length SEQUENTIAL_BLUE) - 1))
            in index_opt SEQUENTIAL_BLUE index))"

section \<open>Transport factors of a commodity (CommodityExplorer.tsx 64-84)\<close>

text \<open>
  \<open>toLowerCase\<close> and \<open>toUpperCase\<close> on the ASCII letters; other characters are left
  as they are.
\<close>

definition lower_char :: "char \<Rightarrow> char" where
  "lower_char c =
     nullish (map_of (zip ''ABCDEFGHIJKLMNOPQRSTUVWXYZ'' ''abcdefghijklmnopqrstuvwxyz'') c) c"

definition upper_char :: "char \<Rightarrow> char" where
  "upper_char c =
     nullish (map_of (zip ''abcdefghijklmnopqrstuvwxyz'' ''ABCDEFGHIJKLMNOPQRSTUVWXYZ'') c) c"

definition toLowerCase :: "string \<Rightarrow> string" where
  "toLowerCase s = map lower_char s"

text \<open>\<open>s.split(sep)[0]\<close>: the part of \<open>s\<close> before the first separator.\<close>

definition split_first :: "char \<Rightarrow> string \<Rightarrow> string" where
  "split_first sep s = takeWhile (\<lambda>c. c \<noteq> sep) s"

definition startsWith :: "string \<Rightarrow> string \<Rightarrow> bool" where
  "startsWith s t = (take (length t) s = t)"

fun str_includes :: "string \<Rightarrow> string \<Rightarrow> bool" where
  "str_includes [] t = (t = [])"
| "str_includes (c # cs) t = (startsWith (c # cs) t \<or> str_includes cs t)"

text \<open>\<open>mode.charAt(0).toUpperCase() + mode.slice(1)\<close>.\<close>

definition capitalize :: "string \<Rightarrow> string" where
  "capitalize m = (case m of [] \<Rightarrow> [] | c # cs \<Rightarrow> upper_char c # cs)"

text \<open>The predicate given to \<open>find\<close>, and the key it selects.\<close>

definition partialMatch :: "string \<Rightarrow> string \<Rightarrow> bool" where
  "partialMatch commodity k =
     str_includes (toLowerCase k)
       (split_first (CHR '' '') (split_first (CHR '','') (toLowerCase commodity)))"

definition fallbackKey :: "TransportFactors \<Rightarrow> string \<Rightarrow> string option" where
  "fallbackKey transportFactors commodity =
     find (partialMatch commodity) (Object_keys transportFactors)"

text \<open>The value of \<open>tf\<close> when the object is rendered into rows.\<close>

definition factors_tf ::
  "TransportFactors \<Rightarrow> string \<Rightarrow> TransportModeFactor obj lookup option" where
  "factors_tf transportFactors commodity =
     (case readProp transportFactors commodity of
        Some tf \<Rightarrow> Some tf
      | None \<Rightarrow>
          (case fallbackKey transportFactors commodity of
             None \<Rightarrow> None
           | Some key \<Rightarrow> if truthy_str key then readProp transportFactors key else None))"

record FactorRow =
  fr_mode :: string
  modeKey :: string
  fr_ttw :: real
  fr_distance :: real
  fr_routes :: real

text \<open>The rows \<open>Object.entries(tf).map(...)\<close> builds, before they are sorted.\<close>

definition factorRows :: "TransportModeFactor obj \<Rightarrow> FactorRow list" where
  "factorRows tf =
     map (\<lambda>(mode, data).
            \<lparr>fr_mode = capitalize mode, modeKey = mode, fr_ttw = tf_ttw data,
             fr_distance = distance data, fr_routes = routes data\<rparr>)
         (Object_entries tf)"

definition factors :: "TransportFactors option \<Rightarrow> string \<Rightarrow> FactorRow list" where
  "factors transportFactors commodity =
     (case transportFactors of
        None \<Rightarrow> []
      | Some t \<Rightarrow>
          (case factors_tf t commodity of
             None \<Rightarrow> []
           | Some tf \<Rightarrow>
               Array_sort (\<lambda>a b. fr_ttw b - fr_ttw a) (factorRows (ownProps tf))))"

section \<open>Sample inputs\<close>

text \<open>The dataset of the specification's scenario: one country, one year, a domestic route only.\<close>

definition scen :: ConsumerCountries where
  "scen = [(''USA'', [(''2023'',
     \<lparr>bilateral = None,
      domestic = Some \<lparr>wtw = 0, ttw = 500000, wtt = 0, food_miles = 1000000000,
                       val = 1, cost = None\<rparr>\<rparr>)])]"

text \<open>A route whose emissions are all \<open>t\<close>, and a dataset with a tie between two entities.\<close>

definition route :: "real \<Rightarrow> RouteEmissions" where
  "route t = \<lparr>wtw = t, ttw = t, wtt = 0, food_miles = 0, val = 0, cost = None\<rparr>"

definition tied :: Commodities where
  "tied =
     [(''Rice'', [(''2023'', \<lparr>bilateral = Some (route 5), domestic = None\<rparr>)]),
      (''Wheat'', [(''2023'', \<lparr>bilateral = Some (route 7), domestic = None\<rparr>)]),
      (''Maize'', [(''2023'', \<lparr>bilateral = Some (route 2), domestic = Some (route 3)\<rparr>)]),
      (''Oats'', [(''2022'', \<lparr>bilateral = Some (route 9), domestic = None\<rparr>)])]"

text \<open>A flow between two countries with \<open>ttw = t\<close> and a dominant mode.\<close>

definition flow :: "string \<Rightarrow> string \<Rightarrow> real \<Rightarrow> string \<Rightarrow> BilateralFlow" where
  "flow a b t m =
     \<lparr>flow_from = a, flow_to = b, flow_wtw = t, flow_ttw = t, flow_wtt = 0,
      flow_food_miles = 0, flow_cost = 0, n_commodities = 1, dominant_mode = m\<rparr>"

text \<open>A flows table: one year, the buckets \<open>all\<close> and \<open>air\<close>.\<close>

definition sampleFlows :: BilateralTopFlows where
  "sampleFlows =
     [(''2023'',
        [(''all'', [flow ''MEX'' ''USA'' 50000 ''land'', flow ''USA'' ''CAN'' 150000 ''land'',
                    flow ''CHN'' ''USA'' 200000 ''maritime'', flow ''USA'' ''JPN'' 90000 ''air'',
                    flow ''BRA'' ''USA'' 300000 ''maritime'']),
         (''air'', [flow ''A'' ''B'' 50000 ''air'', flow ''C'' ''D'' 150000 ''air'',
                    flow ''E'' ''F'' 200000 ''air'', flow ''G'' ''H'' 90000 ''air'',
                    flow ''I'' ''J'' 300000 ''air''])])]"

definition sampleMeta :: CountryMetadata where
  "sampleMeta = [(''CHN'', \<lparr>name = ''China'', lat = 35, lng = 105, region = ''Asia''\<rparr>)]"

text \<open>Commodity-scoped flows: one commodity, one year.\<close>

definition sampleByCommodity :: BilateralByCommodity where
  "sampleByCommodity =
     [(''Wheat'',
        [(''2023'', [flow ''USA'' ''MEX'' 120000 ''land'', flow ''USA'' ''JPN'' 80000 ''maritime'',
                     flow ''CAN'' ''CHN'' 400000 ''maritime''])])]"

text \<open>One country's records, with values just below, at and above a rounding boundary.\<close>

definition sampleYears :: CountryYearData where
  "sampleYears =
     [(''2010'', \<lparr>bilateral = Some (route 1500), domestic = Some (route 1499)\<rparr>),
      (''2011'', \<lparr>bilateral = None, domestic = Some (route 2500)\<rparr>),
      (''2013'', \<lparr>bilateral = Some (route 0), domestic = Some (route 499)\<rparr>)]"

text \<open>
  Transport factors in which the key \<open>Wheat flour\<close> comes before the key \<open>Wheat\<close>,
  so that the partial match for \<open>Wheat\<close> would select the wrong entry.
\<close>

definition sampleFactors :: TransportFactors where
  "sampleFactors =
     [(''Wheat flour'', [(''land'', \<lparr>tf_wtw = 30, tf_ttw = 25, distance = 800, routes = 4\<rparr>)]),
      (''Wheat'', [(''maritime'', \<lparr>tf_wtw = 12, tf_ttw = 10, distance = 9000, routes = 7\<rparr>),
                   (''air'', \<lparr>tf_wtw = 600, tf_ttw = 500, distance = 7000, routes = 1\<rparr>)])]"

section \<open>Arrays: properties of sorting and searching\<close>

lemma insert_sorted_insort_key:
  "insert_sorted (\<lambda>a b. f b - f a) x ys = insort_key (\<lambda>e. - f e) x ys"
  by (induction ys) simp_all

lemma Array_sort_sort_key: "Array_sort (\<lambda>a b. f b - f a) xs = sort_key (\<lambda>e. - f e) xs"
  by (induction xs) (simp_all add: Array_sort_def insert_sorted_insort_key)

lemma Array_sort_descending: "sorted_wrt (\<lambda>a b. f b \<le> f a) (Array_sort (\<lambda>a b. f b - f a) xs)"
  using sorted_sort_key[of "\<lambda>e. - f e" xs] by (simp add: Array_sort_sort_key sorted_map)

lemma Array_sort_stable:
  "filter (\<lambda>e. f e = k) (Array_sort (\<lambda>a b. f b - f a) xs) = filter (\<lambda>e. f e = k) xs"
  using sort_key_stable[of "\<lambda>e. - f e" "- k" xs] by (simp add: Array_sort_sort_key)

lemma Array_sort_set: "set (Array_sort (\<lambda>a b. f b - f a) xs) = set xs"
  by (simp add: Array_sort_sort_key)

lemma Array_sort_length: "length (Array_sort (\<lambda>a b. f b - f a) xs) = length xs"
  by (simp add: Array_sort_sort_key)

lemma Array_sort_sorted_id:
  "sorted_wrt (\<lambda>a b. f b \<le> f a) xs \<Longrightarrow> Array_sort (\<lambda>a b. f b - f a) xs = xs"
  by (simp add: Array_sort_sort_key sort_key_id_if_sorted sorted_map)

lemma filter_take_prefix: "\<exists>zs. filter P xs = filter P (take n xs) @ zs"
proof -
  have "filter P xs = filter P (take n xs) @ filter P (drop n xs)"
    by (metis append_take_drop_id filter_append)
  then show ?thesis ..
qed

lemma findIndex_ge: "- 1 \<le> findIndex p xs"
  by (induction xs) (simp_all add: Let_def)

lemma findIndex_absent: "(findIndex p xs = - 1) = (\<forall>x\<in>set xs. \<not> p x)"
proof (induction xs)
  case Nil
  then show ?case by simp
next
  case (Cons x xs)
  have "- 1 \<le> findIndex p xs" by (rule findIndex_ge)
  with Cons show ?case by (auto simp: Let_def)
qed

lemma findIndex_found:
  assumes "\<exists>x\<in>set xs. p x"
  shows "0 \<le> findIndex p xs \<and> findIndex p xs < int (length xs)
         \<and> p (xs ! nat (findIndex p xs))
         \<and> (\<forall>j < nat (findIndex p xs). \<not> p (xs ! j))"
  using assms
proof (induction xs)
  case Nil
  then show ?case by simp
next
  case (Cons x xs)
  show ?case
  proof (cases "p x")
    case True
    then show ?thesis by simp
  next
    case False
    with Cons.prems have ex: "\<exists>x\<in>set xs. p x" by simp
    from Cons.IH[OF ex] have ih: "0 \<le> findIndex p xs" "findIndex p xs < int (length xs)"
      "p (xs ! nat (findIndex p xs))" "\<forall>j < nat (findIndex p xs). \<not> p (xs ! j)"
      by simp_all
    have eq: "findIndex p (x # xs) = findIndex p xs + 1"
      using False ih(1) by (simp add: Let_def)
    have n: "nat (findIndex p xs + 1) = Suc (nat (findIndex p xs))"
      using ih(1) by simp
    have "\<forall>j < Suc (nat (findIndex p xs)). \<not> p ((x # xs) ! j)"
    proof (intro allI impI)
      fix j assume "j < Suc (nat (findIndex p xs))"
      then show "\<not> p ((x # xs) ! j)"
        using False ih(4) by (cases j) simp_all
    qed
    then show ?thesis
      using ih eq n by simp
  qed
qed

section \<open>Metric resolution: properties\<close>

lemma getProp_mem: "getProp ob k = Some v \<Longrightarrow> (k, v) \<in> set ob"
  by (simp add: getProp_def map_of_SomeD)

lemma nonneg_yd:
  assumes "nonneg_loaded consumers" and "yd (countryData consumers e) ys = Some ent"
  shows "nonneg_entry ent"
proof -
  from assms(2) obtain c cd where c: "consumers = Some c" and cd: "getProp c e = Some cd"
    and ent: "getProp cd ys = Some ent"
    by (auto simp: yd_def countryData_def readProp_def readYear_def
             split: Option.bind_splits option.splits lookup.splits if_splits)
  from assms(1) c have "nonneg_dataset c" by (simp add: nonneg_loaded_def)
  with getProp_mem[OF cd] have "list_all (\<lambda>(y, e). nonneg_entry e) cd"
    by (auto simp: nonneg_dataset_def list_all_iff)
  with getProp_mem[OF ent] show ?thesis by (auto simp: list_all_iff)
qed

lemma bilTtw_nonneg: "(\<And>ent. y = Some ent \<Longrightarrow> nonneg_entry ent) \<Longrightarrow> 0 \<le> bilTtw y"
  by (cases y) (auto simp: bilTtw_def nullish_def nonneg_entry_def split: option.splits)

lemma domTtw_nonneg: "(\<And>ent. y = Some ent \<Longrightarrow> nonneg_entry ent) \<Longrightarrow> 0 \<le> domTtw y"
  by (cases y) (auto simp: domTtw_def nullish_def nonneg_entry_def split: option.splits)

text \<open>
  C1. For a dataset whose \<open>ttw\<close> values are non-negative, the resolved total is the sum
  of the bilateral and the domestic term, all three are non-negative, and a missing
  entity, a missing year or a missing route type makes its term zero, as does an entity
  name that only reaches a property every object inherits; the resolution is a total
  function, so nothing is raised.
\<close>

theorem resolve_total_nonneg_missing_zero:
  assumes "nonneg_loaded consumers"
  shows "(let r = resolve consumers e y;
              entry = yd (countryData consumers e) (String_num y)
          in r_total r = r_bilateral r + r_domestic r
           \<and> 0 \<le> r_bilateral r \<and> 0 \<le> r_domestic r \<and> 0 \<le> r_total r
           \<and> (countryData consumers e = None \<longrightarrow> r_bilateral r = 0 \<and> r_domestic r = 0)
           \<and> (countryData consumers e = Some Inherited \<longrightarrow> r_bilateral r = 0 \<and> r_domestic r = 0)
           \<and> (entry = None \<longrightarrow> r_bilateral r = 0 \<and> r_domestic r = 0)
           \<and> (Option.bind entry bilateral = None \<longrightarrow> r_bilateral r = 0)
           \<and> (Option.bind entry domestic = None \<longrightarrow> r_domestic r = 0))"
proof -
  let ?y = "yd (countryData consumers e) (String_num y)"
  have b: "0 \<le> bilTtw ?y" using nonneg_yd[OF assms(1)] by (rule bilTtw_nonneg)
  have d: "0 \<le> domTtw ?y" using nonneg_yd[OF assms(1)] by (rule domTtw_nonneg)
  have n: "countryData consumers e = None \<Longrightarrow> ?y = None" by (simp add: yd_def)
  have i: "countryData consumers e = Some Inherited \<Longrightarrow> ?y = None"
    by (simp add: yd_def readYear_def)
  have bz: "Option.bind ?y bilateral = None \<Longrightarrow> bilTtw ?y = 0"
    by (simp add: bilTtw_def nullish_def)
  have dz: "Option.bind ?y domestic = None \<Longrightarrow> domTtw ?y = 0"
    by (simp add: domTtw_def nullish_def)
  have r: "resolve consumers e y =
      \<lparr>r_bilateral = bilTtw ?y, r_domestic = domTtw ?y,
       r_total = bilTtw ?y + domTtw ?y, r_foodMiles = totalFm ?y\<rparr>"
    by (simp add: resolve_def Let_def totalTtw_def)
  show ?thesis
    unfolding Let_def r using b d n i bz dz by auto
qed

theorem resolve_witness:
  "nonneg_loaded (Some scen)
   \<and> resolve (Some scen) ''USA'' 2023
       = \<lparr>r_bilateral = 0, r_domestic = 500000, r_total = 500000, r_foodMiles = 1000000000\<rparr>
   \<and> countryData (Some scen) ''FRA'' = None \<and> r_total (resolve (Some scen) ''FRA'' 2023) = 0
   \<and> yd (countryData (Some scen) ''USA'') (String_num 2010) = None
   \<and> r_total (resolve (Some scen) ''USA'' 2010) = 0
   \<and> countryData (Some scen) ''constructor'' = Some Inherited
   \<and> r_total (resolve (Some scen) ''constructor'' 2023) = 0"
proof -
  have h: "nonneg_loaded (Some scen)"
    by (simp add: nonneg_loaded_def nonneg_dataset_def nonneg_entry_def scen_def)
  have y1: "String_num 2023 = ''2023''" and y2: "String_num 2010 = ''2010''"
    by (simp_all add: String_num.simps digit_char_def)
  have e1: "yd (countryData (Some scen) ''USA'') ''2023'' = Some \<lparr>bilateral = None,
      domestic = Some \<lparr>wtw = 0, ttw = 500000, wtt = 0, food_miles = 1000000000, val = 1, cost = None\<rparr>\<rparr>"
    by (simp add: yd_def countryData_def readProp_def readYear_def getProp_def scen_def)
  have e2: "countryData (Some scen) ''FRA'' = None"
    by (simp add: countryData_def readProp_def getProp_def scen_def Object_prototype_names_def)
  have e3: "yd (countryData (Some scen) ''USA'') ''2010'' = None"
    by (simp add: yd_def countryData_def readProp_def readYear_def getProp_def scen_def)
  have e4: "countryData (Some scen) ''constructor'' = Some Inherited"
    by (simp add: countryData_def readProp_def getProp_def scen_def Object_prototype_names_def)
  have f: "r_foodMiles (resolve (Some scen) ''USA'' 2023) = 1000000000"
    by (simp add: resolve_def Let_def y1 e1 totalFm_def nullish_def)
  have d: "r_domestic (resolve (Some scen) ''USA'' 2023) = 500000"
    by (simp add: resolve_def Let_def y1 e1 domTtw_def nullish_def)
  from resolve_total_nonneg_missing_zero [OF h, of "''USA''" 2023]
  have a: "r_bilateral (resolve (Some scen) ''USA'' 2023) = 0"
    and a': "r_total (resolve (Some scen) ''USA'' 2023) = 0 + r_domestic (resolve (Some scen) ''USA'' 2023)"
    by (simp_all add: Let_def y1 e1)
  from resolve_total_nonneg_missing_zero [OF h, of "''FRA''" 2023]
  have b: "r_total (resolve (Some scen) ''FRA'' 2023) = 0"
    by (simp add: Let_def e2)
  from resolve_total_nonneg_missing_zero [OF h, of "''USA''" 2010]
  have c: "r_total (resolve (Some scen) ''USA'' 2010) = 0"
    by (simp add: Let_def y2 e3)
  from resolve_total_nonneg_missing_zero [OF h, of "''constructor''" 2023]
  have i: "r_total (resolve (Some scen) ''constructor'' 2023) = 0"
    by (simp add: Let_def e4)
  have "resolve (Some scen) ''USA'' 2023
       = \<lparr>r_bilateral = 0, r_domestic = 500000, r_total = 500000, r_foodMiles = 1000000000\<rparr>"
    using a a' d f by (cases "resolve (Some scen) ''USA'' 2023") simp
  with h e2 e3 e4 b c i y2 show ?thesis by simp
qed

section \<open>Time series: properties\<close>

lemma Math_round_nearest: "\<bar>real_of_int (Math_round x) - x\<bar> \<le> 1 / 2"
proof -
  have "real_of_int \<lfloor>x + 1 / 2\<rfloor> \<le> x + 1 / 2" by linarith
  moreover have "x + 1 / 2 < real_of_int \<lfloor>x + 1 / 2\<rfloor> + 1" by linarith
  ultimately show ?thesis unfolding Math_round_def by linarith
qed

lemma Math_round_0: "Math_round 0 = 0"
  by (simp add: Math_round_def)

lemma rounded_thousands_eq:
  "rounded_thousands r = Math_round (nullish (map_option ttw r) 0 / 1000)"
  by (cases r) (simp_all add: rounded_thousands_def nullish_def truthy_num_def Math_round_0)

lemma timeSeries_length: "length (timeSeries (Some p)) = 14"
  by (simp add: timeSeries_def)

lemma timeSeries_nth:
  assumes "i < 14"
  shows "timeSeries (Some p) ! i =
           \<lparr>year = 2010 + i,
            Domestic = rounded_thousands (Option.bind (readYear p (String_num (2010 + i))) domestic),
            International = rounded_thousands (Option.bind (readYear p (String_num (2010 + i))) bilateral)\<rparr>"
  using assms by (simp add: timeSeries_def Let_def)

lemma timeSeries_years: "map year (timeSeries (Some p)) = [2010..<2024]"
proof -
  have "map year (timeSeries (Some p)) = map (\<lambda>i. i + 2010) [0..<14]"
    by (simp add: timeSeries_def Let_def comp_def add.commute)
  also have "\<dots> = [2010..<2024]" by (simp only: map_add_upt) simp
  finally show ?thesis .
qed

lemma timeSeries_inherited:
  "map Domestic (timeSeries (Some Inherited)) = replicate 14 0"
  "map International (timeSeries (Some Inherited)) = replicate 14 0"
  by (simp_all add: timeSeries_def Let_def readYear_def rounded_thousands_def comp_def
                    map_replicate_const)

lemma getProp_None_iff: "(getProp ob k = None) = (k \<notin> set (Object_keys ob))"
  by (simp add: getProp_def Object_keys_def map_of_eq_None_iff)

lemma readProp_None_iff:
  "(readProp ob k = None) = (k \<notin> set (Object_keys ob) \<and> k \<notin> set Object_prototype_names)"
  by (cases "getProp ob k") (auto simp: readProp_def simp flip: getProp_None_iff)

lemma readProp_own:
  assumes "k \<in> set (Object_keys ob)"
  shows "\<exists>v. readProp ob k = Some (Own v) \<and> (k, v) \<in> set ob"
proof -
  from assms obtain v where v: "getProp ob k = Some v"
    using getProp_None_iff[of ob k] by (cases "getProp ob k") auto
  then have "readProp ob k = Some (Own v)" by (simp add: readProp_def)
  with getProp_mem[OF v] show ?thesis by blast
qed

lemma readProp_inherited:
  "k \<notin> set (Object_keys ob) \<Longrightarrow> k \<in> set Object_prototype_names \<Longrightarrow> readProp ob k = Some Inherited"
  using getProp_None_iff[of ob k] by (simp add: readProp_def)

text \<open>
  Where the own-property lookup is the read: for every key that is no inherited name, in
  particular for the digits of a year.
\<close>

lemma readProp_getProp:
  "k \<notin> set Object_prototype_names \<Longrightarrow> readProp ob k = map_option Own (getProp ob k)"
  by (cases "getProp ob k") (simp_all add: readProp_def)

lemma String_num_last: "String_num n \<noteq> [] \<and> last (String_num n) = digit_char (n mod 10)"
  by (subst (1 2) String_num.simps) simp

lemma digit_char_digit: "digit_char (n mod 10) \<in> set ''0123456789''"
proof -
  have "n mod 10 < length ''0123456789''" by simp
  then show ?thesis unfolding digit_char_def by (rule nth_mem)
qed

lemma String_num_not_inherited: "String_num n \<notin> set Object_prototype_names"
proof
  assume "String_num n \<in> set Object_prototype_names"
  then have "last (String_num n) \<in> set ''rfeyg_''"
    by (auto simp: Object_prototype_names_def)
  with String_num_last[of n] digit_char_digit[of n] show False by auto
qed

lemma sample_strings:
  "String_num 2010 = ''2010''" "String_num 2011 = ''2011''" "String_num 2012 = ''2012''"
  "String_num 2013 = ''2013''" "String_num 2023 = ''2023''"
  by (simp_all add: String_num.simps digit_char_def)

text \<open>
  C2 (as amended). For an entity that has an entry in the dataset the series has exactly
  14 points, for the years 2010 to 2023 in ascending order, and a year or a route type
  without data gives the value zero at its index. For an entity name that is no key of
  the dataset but names a property every object inherits (such as \<open>constructor\<close>) the
  series has the same 14 points, all of them zero. For any other entity without an
  entry, and while the dataset is not loaded, the series is empty.
\<close>

theorem timeSeries_fourteen_when_present:
  "length (timeSeries (Some p)) = 14
   \<and> map year (timeSeries (Some p)) = [2010..<2024]
   \<and> (\<forall>i<14. (Option.bind (readYear p (String_num (2010 + i))) domestic = None
                  \<longrightarrow> Domestic (timeSeries (Some p) ! i) = 0)
             \<and> (Option.bind (readYear p (String_num (2010 + i))) bilateral = None
                  \<longrightarrow> International (timeSeries (Some p) ! i) = 0))
   \<and> (countryData consumers e = None \<longrightarrow> timeSeries (countryData consumers e) = [])
   \<and> (countryData consumers e = Some p \<longrightarrow> length (timeSeries (countryData consumers e)) = 14)
   \<and> (countryData consumers e = Some Inherited \<longrightarrow>
        map Domestic (timeSeries (countryData consumers e)) = replicate 14 0
        \<and> map International (timeSeries (countryData consumers e)) = replicate 14 0)
   \<and> (e \<in> set (Object_keys c) \<longrightarrow>
        (\<exists>cd. countryData (Some c) e = Some (Own cd) \<and> (e, cd) \<in> set c))
   \<and> (e \<notin> set (Object_keys c) \<and> e \<in> set Object_prototype_names \<longrightarrow>
        countryData (Some c) e = Some Inherited)
   \<and> (e \<notin> set (Object_keys c) \<and> e \<notin> set Object_prototype_names \<longrightarrow>
        countryData (Some c) e = None)
   \<and> countryData None e = None"
proof -
  have 3: "\<forall>i<14. (Option.bind (readYear p (String_num (2010 + i))) domestic = None
                  \<longrightarrow> Domestic (timeSeries (Some p) ! i) = 0)
             \<and> (Option.bind (readYear p (String_num (2010 + i))) bilateral = None
                  \<longrightarrow> International (timeSeries (Some p) ! i) = 0)"
    by (simp add: timeSeries_nth rounded_thousands_def)
  have 4: "countryData consumers e = None \<longrightarrow> timeSeries (countryData consumers e) = []"
    by (simp add: timeSeries_def)
  have 5: "countryData consumers e = Some p \<longrightarrow> length (timeSeries (countryData consumers e)) = 14"
    by (simp add: timeSeries_length)
  have 6: "countryData consumers e = Some Inherited \<longrightarrow>
        map Domestic (timeSeries (countryData consumers e)) = replicate 14 0
        \<and> map International (timeSeries (countryData consumers e)) = replicate 14 0"
    by (simp add: timeSeries_inherited)
  have 7: "e \<in> set (Object_keys c) \<longrightarrow>
        (\<exists>cd. countryData (Some c) e = Some (Own cd) \<and> (e, cd) \<in> set c)"
    using readProp_own[of e c] by (simp add: countryData_def)
  have 8: "e \<notin> set (Object_keys c) \<and> e \<in> set Object_prototype_names \<longrightarrow>
        countryData (Some c) e = Some Inherited"
    using readProp_inherited[of e c] by (simp add: countryData_def)
  have 9: "e \<notin> set (Object_keys c) \<and> e \<notin> set Object_prototype_names \<longrightarrow>
        countryData (Some c) e = None"
    using readProp_None_iff[of c e] by (simp add: countryData_def)
  have 10: "countryData None e = None" by (simp add: countryData_def)
  from timeSeries_length timeSeries_years 3 4 5 6 7 8 9 10 show ?thesis by blast
qed

theorem timeSeries_shape_witness:
  "countryData (Some scen) ''USA'' = Some (Own (snd (hd scen)))
   \<and> length (timeSeries (countryData (Some scen) ''USA'')) = 14
   \<and> countryData (Some scen) ''FRA'' = None
   \<and> timeSeries (countryData (Some scen) ''FRA'') = []
   \<and> countryData (Some scen) ''constructor'' = Some Inherited
   \<and> map Domestic (timeSeries (countryData (Some scen) ''constructor'')) = replicate 14 0
   \<and> International (timeSeries (Some (Own sampleYears)) ! 1) = 0
   \<and> Domestic (timeSeries (Some (Own sampleYears)) ! 2) = 0"
proof -
  have k: "Object_keys scen = [''USA'']" by (simp add: Object_keys_def scen_def)
  have u: "countryData (Some scen) ''USA'' = Some (Own (snd (hd scen)))"
    by (simp add: countryData_def readProp_def getProp_def scen_def)
  have fk: "''FRA'' \<notin> set (Object_keys scen) \<and> ''FRA'' \<notin> set Object_prototype_names"
    by (simp add: k Object_prototype_names_def)
  have ck: "''constructor'' \<notin> set (Object_keys scen)
            \<and> ''constructor'' \<in> set Object_prototype_names"
    by (simp add: k Object_prototype_names_def)
  have b: "Option.bind (readYear (Own sampleYears) (String_num (2010 + 1))) bilateral = None"
    by (simp add: sample_strings readYear_def getProp_def sampleYears_def)
  have d: "Option.bind (readYear (Own sampleYears) (String_num (2010 + 2))) domestic = None"
    by (simp add: sample_strings readYear_def getProp_def sampleYears_def)
  from timeSeries_fourteen_when_present [of "Own (snd (hd scen))" "Some scen" "''USA''"] u
  have 1: "length (timeSeries (countryData (Some scen) ''USA'')) = 14" by blast
  from timeSeries_fourteen_when_present [of Inherited None "''FRA''" scen] fk
  have f: "countryData (Some scen) ''FRA'' = None" by blast
  from timeSeries_fourteen_when_present [of Inherited "Some scen" "''FRA''"] f
  have 2: "timeSeries (countryData (Some scen) ''FRA'') = []" by blast
  from timeSeries_fourteen_when_present [of Inherited None "''constructor''" scen] ck
  have i: "countryData (Some scen) ''constructor'' = Some Inherited" by blast
  from timeSeries_fourteen_when_present [of Inherited "Some scen" "''constructor''"] i
  have 3: "map Domestic (timeSeries (countryData (Some scen) ''constructor'')) = replicate 14 0"
    by blast
  have lt: "(1::nat) < 14" "(2::nat) < 14" by simp_all
  from timeSeries_fourteen_when_present [of "Own sampleYears" None "[]"] b lt(1)
  have 4: "International (timeSeries (Some (Own sampleYears)) ! 1) = 0" by blast
  from timeSeries_fourteen_when_present [of "Own sampleYears" None "[]"] d lt(2)
  have 5: "Domestic (timeSeries (Some (Own sampleYears)) ! 2) = 0" by blast
  from u 1 f 2 i 3 4 5 show ?thesis by blast
qed

text \<open>
  The series of an entity that the dataset does not contain has no points at all: the
  scenario dataset has no entry for \<open>FRA\<close>.
\<close>

theorem timeSeries_absent_counterexample:
  "length (timeSeries (countryData (Some scen) ''FRA'')) \<noteq> 14"
  by (simp add: timeSeries_def countryData_def readProp_def getProp_def scen_def
                Object_prototype_names_def)

section \<open>Flow filter: properties\<close>

lemma filteredFlows_take_filter:
  "filteredFlows src modeFilter minEmissions sel
     = take 100 (filter (flowKept sel modeFilter minEmissions) src)"
  by (auto simp: filteredFlows_def Let_def flowKept_def[abs_def])

lemma subseq_take: "subseq (take n xs) xs"
  by (metis append_take_drop_id subseq_rev_drop_many subseq_order.order_refl)

lemma filteredFlows_subseq: "subseq (filteredFlows src modeFilter minEmissions sel) src"
  unfolding filteredFlows_take_filter
  by (rule subseq_order.order_trans[OF subseq_take subseq_filter_left])

lemma filteredFlows_threshold:
  "f \<in> set (filteredFlows src modeFilter minEmissions sel) \<Longrightarrow> flow_ttw f \<ge> minEmissions"
  unfolding filteredFlows_take_filter
  by (auto dest!: in_set_takeD simp: flowKept_def)

lemma filteredFlows_mode_unknown:
  assumes "truthy_str sel" and "modeFilter \<noteq> ''all''"
    and "\<forall>f\<in>set src. dominant_mode f \<noteq> modeFilter"
  shows "filteredFlows src modeFilter minEmissions sel = []"
proof -
  have "filter (flowKept sel modeFilter minEmissions) src = []"
    using assms by (auto simp: filter_empty_conv flowKept_def modeKept_def)
  then show ?thesis by (simp add: filteredFlows_take_filter)
qed

text \<open>
  C3. The flows returned are at most 100, each with \<open>ttw\<close> at least the threshold;
  they are the first 100 of the source flows that pass the filters, in source order
  (the filters come before the truncation and nothing is sorted); and a year or a mode
  that the table does not know gives the empty list: a year that is no key of the table
  in use, a mode that is no key of the year's buckets, or, for commodity-scoped flows, a
  mode that no flow has as its dominant mode.
\<close>

theorem filterFlows_cap_threshold_order:
  "(let src = allFlows b bc sel y modeFilter;
        res = filterFlows b bc sel y modeFilter minEmissions
    in length res \<le> 100
     \<and> (\<forall>f\<in>set res. flow_ttw f \<ge> minEmissions)
     \<and> subseq res src
     \<and> res = take 100 (filter (flowKept sel modeFilter minEmissions) src)
     \<and> (\<not> (truthy_str sel \<and> bc \<noteq> None) \<and> Option.bind b (\<lambda>t. getProp t y) = None
          \<longrightarrow> res = [])
     \<and> (\<forall>byMode. \<not> (truthy_str sel \<and> bc \<noteq> None) \<and> Option.bind b (\<lambda>t. getProp t y) = Some byMode
            \<and> getProp byMode modeFilter = None \<longrightarrow> res = [])
     \<and> (truthy_str sel \<and> bc \<noteq> None
          \<and> Option.bind (Option.bind bc (\<lambda>t. getProp t sel)) (\<lambda>ys. getProp ys y) = None
          \<longrightarrow> res = [])
     \<and> (truthy_str sel \<and> modeFilter \<noteq> ''all'' \<and> (\<forall>f\<in>set src. dominant_mode f \<noteq> modeFilter)
          \<longrightarrow> res = []))"
proof -
  let ?src = "allFlows b bc sel y modeFilter"
  let ?res = "filterFlows b bc sel y modeFilter minEmissions"
  have r: "?res = filteredFlows ?src modeFilter minEmissions sel"
    by (simp add: filterFlows_def)
  have e: "?src = [] \<Longrightarrow> ?res = []"
    by (simp add: r filteredFlows_take_filter)
  have 1: "length ?res \<le> 100" by (simp add: r filteredFlows_take_filter)
  have 2: "\<forall>f\<in>set ?res. flow_ttw f \<ge> minEmissions"
    unfolding r using filteredFlows_threshold by blast
  have 3: "subseq ?res ?src" unfolding r by (rule filteredFlows_subseq)
  have 4: "?res = take 100 (filter (flowKept sel modeFilter minEmissions) ?src)"
    unfolding r by (rule filteredFlows_take_filter)
  have 5: "\<not> (truthy_str sel \<and> bc \<noteq> None) \<and> Option.bind b (\<lambda>t. getProp t y) = None
          \<longrightarrow> ?res = []"
    by (auto intro!: e simp: allFlows_def)
  have 6: "\<forall>byMode. \<not> (truthy_str sel \<and> bc \<noteq> None) \<and> Option.bind b (\<lambda>t. getProp t y) = Some byMode
            \<and> getProp byMode modeFilter = None \<longrightarrow> ?res = []"
    by (auto intro!: e simp: allFlows_def nullish_def)
  have 7: "truthy_str sel \<and> bc \<noteq> None
          \<and> Option.bind (Option.bind bc (\<lambda>t. getProp t sel)) (\<lambda>ys. getProp ys y) = None
          \<longrightarrow> ?res = []"
    by (auto intro!: e simp: allFlows_def nullish_def)
  have 8: "truthy_str sel \<and> modeFilter \<noteq> ''all'' \<and> (\<forall>f\<in>set ?src. dominant_mode f \<noteq> modeFilter)
          \<longrightarrow> ?res = []"
    unfolding r using filteredFlows_mode_unknown by blast
  show ?thesis
    unfolding Let_def using 1 2 3 4 5 6 7 8 by blast
qed

lemma sample_air:
  "allFlows (Some sampleFlows) None [] ''2023'' ''air''
     = [flow ''A'' ''B'' 50000 ''air'', flow ''C'' ''D'' 150000 ''air'',
        flow ''E'' ''F'' 200000 ''air'', flow ''G'' ''H'' 90000 ''air'',
        flow ''I'' ''J'' 300000 ''air'']"
  by (simp add: allFlows_def truthy_str_def sampleFlows_def getProp_def nullish_def)

lemma sample_wheat:
  "allFlows (Some sampleFlows) (Some sampleByCommodity) ''Wheat'' ''2023'' ''rail''
     = [flow ''USA'' ''MEX'' 120000 ''land'', flow ''USA'' ''JPN'' 80000 ''maritime'',
        flow ''CAN'' ''CHN'' 400000 ''maritime'']"
  by (simp add: allFlows_def truthy_str_def sampleByCommodity_def getProp_def nullish_def)

theorem filterFlows_witness:
  "filterFlows (Some sampleFlows) None [] ''2023'' ''air'' 100000
     = [flow ''C'' ''D'' 150000 ''air'', flow ''E'' ''F'' 200000 ''air'',
        flow ''I'' ''J'' 300000 ''air'']
   \<and> list_all (\<lambda>f. flow_ttw f \<ge> 100000)
        (filterFlows (Some sampleFlows) None [] ''2023'' ''air'' 100000)
   \<and> filterFlows (Some sampleFlows) None [] ''1999'' ''air'' 100000 = []
   \<and> filterFlows (Some sampleFlows) None [] ''2023'' ''rail'' 100000 = []
   \<and> filterFlows (Some sampleFlows) (Some sampleByCommodity) ''Wheat'' ''1999'' ''all'' 0 = []
   \<and> filterFlows (Some sampleFlows) (Some sampleByCommodity) ''Wheat'' ''2023'' ''rail'' 0 = []"
proof -
  have 1: "filterFlows (Some sampleFlows) None [] ''2023'' ''air'' 100000
     = [flow ''C'' ''D'' 150000 ''air'', flow ''E'' ''F'' 200000 ''air'',
        flow ''I'' ''J'' 300000 ''air'']"
    using filterFlows_cap_threshold_order [of "Some sampleFlows" None "[]" "''2023''" "''air''" 100000]
    by (simp add: Let_def sample_air flowKept_def truthy_str_def flow_def)
  from filterFlows_cap_threshold_order [of "Some sampleFlows" None "[]" "''2023''" "''air''" 100000]
  have 2: "list_all (\<lambda>f. flow_ttw f \<ge> 100000)
        (filterFlows (Some sampleFlows) None [] ''2023'' ''air'' 100000)"
    unfolding Let_def list_all_iff by blast
  have y: "\<not> (truthy_str [] \<and> (None :: BilateralByCommodity option) \<noteq> None)
           \<and> Option.bind (Some sampleFlows) (\<lambda>t. getProp t ''1999'') = None"
    by (simp add: sampleFlows_def getProp_def)
  have 3: "filterFlows (Some sampleFlows) None [] ''1999'' ''air'' 100000 = []"
    using filterFlows_cap_threshold_order [of "Some sampleFlows" None "[]" "''1999''" "''air''" 100000] y
    unfolding Let_def by blast
  have m: "\<not> (truthy_str [] \<and> (None :: BilateralByCommodity option) \<noteq> None)
           \<and> Option.bind (Some sampleFlows) (\<lambda>t. getProp t ''2023'') = Some (snd (hd sampleFlows))
           \<and> getProp (snd (hd sampleFlows)) ''rail'' = None"
    by (simp add: sampleFlows_def getProp_def)
  have 4: "filterFlows (Some sampleFlows) None [] ''2023'' ''rail'' 100000 = []"
    using filterFlows_cap_threshold_order [of "Some sampleFlows" None "[]" "''2023''" "''rail''" 100000] m
    unfolding Let_def by blast
  have w: "truthy_str ''Wheat'' \<and> Some sampleByCommodity \<noteq> None
           \<and> Option.bind (Option.bind (Some sampleByCommodity) (\<lambda>t. getProp t ''Wheat''))
               (\<lambda>ys. getProp ys ''1999'') = None"
    by (simp add: sampleByCommodity_def getProp_def truthy_str_def)
  have 5: "filterFlows (Some sampleFlows) (Some sampleByCommodity) ''Wheat'' ''1999'' ''all'' 0 = []"
    using filterFlows_cap_threshold_order
         [of "Some sampleFlows" "Some sampleByCommodity" "''Wheat''" "''1999''" "''all''" 0] w
    unfolding Let_def by blast
  have r: "truthy_str ''Wheat'' \<and> ''rail'' \<noteq> ''all''
           \<and> (\<forall>f\<in>set (allFlows (Some sampleFlows) (Some sampleByCommodity) ''Wheat'' ''2023'' ''rail'').
                 dominant_mode f \<noteq> ''rail'')"
    by (simp add: truthy_str_def sample_wheat flow_def)
  have 6: "filterFlows (Some sampleFlows) (Some sampleByCommodity) ''Wheat'' ''2023'' ''rail'' 0 = []"
    using filterFlows_cap_threshold_order
         [of "Some sampleFlows" "Some sampleByCommodity" "''Wheat''" "''2023''" "''rail''" 0] r
    unfolding Let_def by blast
  from 1 2 3 4 5 6 show ?thesis by blast
qed

section \<open>Rankings: properties\<close>

lemma rankedRows_names: "map rk_name (rankedRows c y) = Object_keys c"
  by (simp add: rankedRows_def Object_keys_def Object_entries_def split_def Let_def)

lemma consumerRows_names: "map tc_iso3 (consumerRows m c y) = Object_keys c"
  by (simp add: consumerRows_def Object_keys_def Object_entries_def split_def Let_def)

lemma allRanked_sorted_names: "set (map rk_name (allRanked_sorted c y)) = set (Object_keys c)"
  unfolding allRanked_sorted_def
  by (simp only: set_map Array_sort_set) (simp add: rankedRows_names flip: set_map)

lemma allRanked_sorted_length: "length (allRanked_sorted c y) = length c"
  by (simp add: allRanked_sorted_def Array_sort_length rankedRows_def Object_entries_def)

lemma tied_rows:
  "rankedRows tied ''2023'' =
     [\<lparr>rk_name = ''Rice'', rk_ttw = 5\<rparr>, \<lparr>rk_name = ''Wheat'', rk_ttw = 7\<rparr>,
      \<lparr>rk_name = ''Maize'', rk_ttw = 5\<rparr>, \<lparr>rk_name = ''Oats'', rk_ttw = 0\<rparr>]"
  by (simp add: rankedRows_def tied_def Object_entries_def getProp_def nullish_def route_def)

lemma tied_sorted:
  "allRanked_sorted tied ''2023'' =
     [\<lparr>rk_name = ''Wheat'', rk_ttw = 7\<rparr>, \<lparr>rk_name = ''Rice'', rk_ttw = 5\<rparr>,
      \<lparr>rk_name = ''Maize'', rk_ttw = 5\<rparr>, \<lparr>rk_name = ''Oats'', rk_ttw = 0\<rparr>]"
  by (simp add: allRanked_sorted_def tied_rows Array_sort_def)

text \<open>
  C4 (as amended). The rank of an entity is its 1-based position in the full
  descending ranking: the first position whose name is the entity's; it is 0 exactly
  when the entity is not a key of the dataset. The total is the number of entities of
  the dataset, whether or not they have data for the year.
\<close>

theorem allRanked_position_and_total:
  "(let r = allRanked (Some c) commodity y;
        ranking = allRanked_sorted c y
    in sorted_wrt (\<lambda>a b. rk_ttw b \<le> rk_ttw a) ranking
     \<and> rr_total r = length (Object_keys c)
     \<and> (commodity \<in> set (Object_keys c) \<longrightarrow>
          1 \<le> rr_rank r \<and> rr_rank r \<le> int (rr_total r)
          \<and> rk_name (ranking ! nat (rr_rank r - 1)) = commodity
          \<and> (\<forall>j < nat (rr_rank r - 1). rk_name (ranking ! j) \<noteq> commodity))
     \<and> (commodity \<notin> set (Object_keys c) \<longrightarrow> rr_rank r = 0))
   \<and> allRanked None commodity y = \<lparr>rr_rank = 0, rr_total = 0\<rparr>"
proof -
  let ?s = "allRanked_sorted c y"
  let ?p = "\<lambda>e. rk_name e = commodity"
  have r: "allRanked (Some c) commodity y = \<lparr>rr_rank = findIndex ?p ?s + 1, rr_total = length ?s\<rparr>"
    by (simp add: allRanked_def Let_def)
  have srt: "sorted_wrt (\<lambda>a b. rk_ttw b \<le> rk_ttw a) ?s"
    unfolding allRanked_sorted_def by (rule Array_sort_descending)
  have tot: "length ?s = length (Object_keys c)"
    by (simp add: allRanked_sorted_length Object_keys_def)
  have ex: "(\<exists>e\<in>set ?s. ?p e) = (commodity \<in> set (Object_keys c))"
    using allRanked_sorted_names[of c y] by force
  have absent: "commodity \<notin> set (Object_keys c) \<Longrightarrow> findIndex ?p ?s + 1 = 0"
    using ex findIndex_absent[of ?p ?s] by auto
  have present: "commodity \<in> set (Object_keys c) \<Longrightarrow>
      1 \<le> findIndex ?p ?s + 1 \<and> findIndex ?p ?s + 1 \<le> int (length ?s)
      \<and> rk_name (?s ! nat (findIndex ?p ?s)) = commodity
      \<and> (\<forall>j < nat (findIndex ?p ?s). rk_name (?s ! j) \<noteq> commodity)"
    using ex findIndex_found[of ?s ?p] by auto
  have none: "allRanked None commodity y = \<lparr>rr_rank = 0, rr_total = 0\<rparr>"
    by (simp add: allRanked_def)
  show ?thesis
    unfolding Let_def r using srt tot absent present none by simp
qed

theorem allRanked_witness:
  "''Maize'' \<in> set (Object_keys tied) \<and> ''Barley'' \<notin> set (Object_keys tied)
   \<and> allRanked (Some tied) ''Maize'' ''2023'' = \<lparr>rr_rank = 3, rr_total = 4\<rparr>
   \<and> allRanked (Some tied) ''Barley'' ''2023'' = \<lparr>rr_rank = 0, rr_total = 4\<rparr>
   \<and> rk_name (allRanked_sorted tied ''2023'' ! 2) = ''Maize''"
proof -
  have k: "Object_keys tied = [''Rice'', ''Wheat'', ''Maize'', ''Oats'']"
    by (simp add: Object_keys_def tied_def)
  have m: "''Maize'' \<in> set (Object_keys tied)" and b: "''Barley'' \<notin> set (Object_keys tied)"
    by (simp_all add: k)
  from allRanked_position_and_total [of tied "''Barley''" "''2023''"] b
  have "rr_rank (allRanked (Some tied) ''Barley'' ''2023'') = 0"
    and "rr_total (allRanked (Some tied) ''Barley'' ''2023'') = 4"
    by (simp_all add: Let_def k)
  then have 1: "allRanked (Some tied) ''Barley'' ''2023'' = \<lparr>rr_rank = 0, rr_total = 4\<rparr>"
    by (cases "allRanked (Some tied) ''Barley'' ''2023''") simp
  have 2: "allRanked (Some tied) ''Maize'' ''2023'' = \<lparr>rr_rank = 3, rr_total = 4\<rparr>"
    by (simp add: allRanked_def Let_def tied_sorted)
  from allRanked_position_and_total [of tied "''Maize''" "''2023''"] m
  have "rk_name (allRanked_sorted tied ''2023''
                  ! nat (rr_rank (allRanked (Some tied) ''Maize'' ''2023'') - 1)) = ''Maize''"
    unfolding Let_def by blast
  then have 3: "rk_name (allRanked_sorted tied ''2023'' ! 2) = ''Maize''"
    by (simp add: 2)
  from m b 1 2 3 show ?thesis by simp
qed

text \<open>
  The total is not the count of the entities with data for the year: in \<^const>\<open>tied\<close>
  three of the four entities have a record for 2023, and the total is 4.
\<close>

theorem allRanked_total_counterexample:
  "rr_total (allRanked (Some tied) ''Maize'' ''2023'') \<noteq> spec_countWithData tied ''2023''"
proof -
  have "rr_total (allRanked (Some tied) ''Maize'' ''2023'') = 4"
    by (simp add: allRanked_def Let_def tied_sorted)
  moreover have "spec_countWithData tied ''2023'' = 3"
    by (simp add: spec_countWithData_def tied_def getProp_def)
  ultimately show ?thesis by simp
qed

section \<open>International share: properties\<close>

lemma intlShare_body_eq:
  "intlShare_body c yr k acc =
     (fst acc + bilTtw (yd (readProp c k) (String_num yr)),
      snd acc + bilTtw (yd (readProp c k) (String_num yr)) + domTtw (yd (readProp c k) (String_num yr)))"
  by (cases acc)
     (auto simp: intlShare_body_def Let_def bilTtw_def domTtw_def nullish_def
           split: option.splits Option.bind_splits)

lemma intlShare_fold:
  "fold (intlShare_body c yr) ks acc =
     (fst acc + sum_list (map (\<lambda>k. bilTtw (yd (readProp c k) (String_num yr))) ks),
      snd acc + sum_list (map (\<lambda>k. bilTtw (yd (readProp c k) (String_num yr))) ks)
              + sum_list (map (\<lambda>k. domTtw (yd (readProp c k) (String_num yr))) ks))"
proof (induction ks arbitrary: acc)
  case Nil
  then show ?case by simp
next
  case (Cons k ks)
  let ?bil = "\<lambda>k. bilTtw (yd (readProp c k) (String_num yr))"
  let ?dom = "\<lambda>k. domTtw (yd (readProp c k) (String_num yr))"
  let ?acc = "intlShare_body c yr k acc"
  have "fold (intlShare_body c yr) (k # ks) acc = fold (intlShare_body c yr) ks ?acc"
    by simp
  also have "\<dots> = (fst ?acc + sum_list (map ?bil ks),
                     snd ?acc + sum_list (map ?bil ks) + sum_list (map ?dom ks))"
    by (rule Cons.IH)
  also have "\<dots> = (fst acc + sum_list (map ?bil (k # ks)),
                     snd acc + sum_list (map ?bil (k # ks)) + sum_list (map ?dom (k # ks)))"
    by (simp add: intlShare_body_eq algebra_simps)
  finally show ?case .
qed

lemma intlShare_sums:
  "intlShare (Some c) yr =
     (if bilateralSum c yr + domesticSum c yr > 0
      then (bilateralSum c yr / (bilateralSum c yr + domesticSum c yr)) * 100 else 0)"
  by (simp add: intlShare_def Let_def intlShare_fold bilateralSum_def domesticSum_def)

lemma countryData_Some: "countryData (Some c) k = readProp c k"
  by (simp add: countryData_def)

lemma bilateralSum_nonneg:
  assumes "nonneg_dataset c"
  shows "0 \<le> bilateralSum c yr"
  unfolding bilateralSum_def
proof (rule sum_list_nonneg)
  fix x assume "x \<in> set (map (\<lambda>k. bilTtw (yd (readProp c k) (String_num yr))) (Object_keys c))"
  then obtain k where x: "x = bilTtw (yd (countryData (Some c) k) (String_num yr))"
    by (auto simp: countryData_Some)
  have "nonneg_loaded (Some c)" using assms by (simp add: nonneg_loaded_def)
  then show "0 \<le> x" unfolding x by (intro bilTtw_nonneg nonneg_yd)
qed

lemma domesticSum_nonneg:
  assumes "nonneg_dataset c"
  shows "0 \<le> domesticSum c yr"
  unfolding domesticSum_def
proof (rule sum_list_nonneg)
  fix x assume "x \<in> set (map (\<lambda>k. domTtw (yd (readProp c k) (String_num yr))) (Object_keys c))"
  then obtain k where x: "x = domTtw (yd (countryData (Some c) k) (String_num yr))"
    by (auto simp: countryData_Some)
  have "nonneg_loaded (Some c)" using assms by (simp add: nonneg_loaded_def)
  then show "0 \<le> x" unfolding x by (intro domTtw_nonneg nonneg_yd)
qed

lemma sum_list_all_zero: "\<forall>x\<in>set xs. f x = (0::real) \<Longrightarrow> sum_list (map f xs) = 0"
  by (induction xs) simp_all

lemma sums_no_data:
  assumes "\<forall>k\<in>set (Object_keys c). yd (readProp c k) (String_num yr) = None"
  shows "bilateralSum c yr = 0" and "domesticSum c yr = 0"
proof -
  show "bilateralSum c yr = 0"
    unfolding bilateralSum_def using assms
    by (intro sum_list_all_zero) (simp add: bilTtw_def nullish_def)
  show "domesticSum c yr = 0"
    unfolding domesticSum_def using assms
    by (intro sum_list_all_zero) (simp add: domTtw_def nullish_def)
qed

text \<open>
  C5. For a dataset whose \<open>ttw\<close> values are non-negative, the international share of a
  year is \<open>100 * bilateralSum / (bilateralSum + domesticSum)\<close>, or 0 when that
  denominator is 0; it lies between 0 and 100; and it is 0 when no entity has data for
  the year, and while the dataset is not loaded.
\<close>

theorem intlShare_percentage:
  assumes "nonneg_dataset c"
  shows "intlShare (Some c) yr
           = (if bilateralSum c yr + domesticSum c yr = 0 then 0
              else 100 * bilateralSum c yr / (bilateralSum c yr + domesticSum c yr))
       \<and> 0 \<le> intlShare (Some c) yr \<and> intlShare (Some c) yr \<le> 100
       \<and> ((\<forall>k\<in>set (Object_keys c). yd (readProp c k) (String_num yr) = None)
            \<longrightarrow> intlShare (Some c) yr = 0)
       \<and> intlShare None yr = 0"
proof -
  let ?b = "bilateralSum c yr" and ?d = "domesticSum c yr"
  have b: "0 \<le> ?b" and d: "0 \<le> ?d"
    using assms by (rule bilateralSum_nonneg, rule domesticSum_nonneg)
  have pos: "(?b + ?d > 0) = (?b + ?d \<noteq> 0)" using b d by linarith
  have 1: "intlShare (Some c) yr = (if ?b + ?d = 0 then 0 else 100 * ?b / (?b + ?d))"
    using pos by (simp add: intlShare_sums)
  have 2: "0 \<le> intlShare (Some c) yr" unfolding 1 using b d by simp
  have 3: "intlShare (Some c) yr \<le> 100"
  proof (cases "?b + ?d = 0")
    case True
    then show ?thesis by (simp add: 1)
  next
    case False
    with pos have p: "0 < ?b + ?d" by simp
    have "100 * ?b \<le> 100 * (?b + ?d)" using d by simp
    then have "100 * ?b / (?b + ?d) \<le> 100" using p by (simp add: pos_divide_le_eq)
    with False show ?thesis by (simp add: 1)
  qed
  have 4: "(\<forall>k\<in>set (Object_keys c). yd (readProp c k) (String_num yr) = None)
            \<longrightarrow> intlShare (Some c) yr = 0"
    using sums_no_data[of c yr] by (simp add: 1)
  have 5: "intlShare None yr = 0" by (simp add: intlShare_def)
  from 1 2 3 4 5 show ?thesis by blast
qed

theorem intlShare_witness:
  "nonneg_dataset tied \<and> intlShare (Some tied) 2023 = 1400 / 17
   \<and> list_all (\<lambda>k. yd (readProp tied k) (String_num 2010) = None) (Object_keys tied)
   \<and> intlShare (Some tied) 2010 = 0"
proof -
  have h: "nonneg_dataset tied"
    by (simp add: nonneg_dataset_def nonneg_entry_def tied_def route_def)
  have y: "String_num 2023 = ''2023''" "String_num 2010 = ''2010''"
    by (simp_all add: String_num.simps digit_char_def)
  have k: "Object_keys tied = [''Rice'', ''Wheat'', ''Maize'', ''Oats'']"
    by (simp add: Object_keys_def tied_def)
  have b: "bilateralSum tied 2023 = 14"
    by (simp add: bilateralSum_def k y) (simp add: yd_def readProp_def readYear_def getProp_def tied_def bilTtw_def nullish_def route_def)
  have d: "domesticSum tied 2023 = 3"
    by (simp add: domesticSum_def k y) (simp add: yd_def readProp_def readYear_def getProp_def tied_def domTtw_def nullish_def route_def)
  have n: "list_all (\<lambda>k. yd (readProp tied k) (String_num 2010) = None) (Object_keys tied)"
    by (simp add: k y) (simp add: yd_def readProp_def readYear_def getProp_def tied_def)
  from intlShare_percentage [OF h, of 2023] have 1: "intlShare (Some tied) 2023 = 1400 / 17"
    by (simp add: b d)
  from intlShare_percentage [OF h, of 2010] n have 2: "intlShare (Some tied) 2010 = 0"
    unfolding list_all_iff by blast
  from h 1 n 2 show ?thesis by blast
qed

section \<open>Sequential colours: properties\<close>

lemma index_opt_member:
  "0 \<le> i \<Longrightarrow> i < int (length arr) \<Longrightarrow> \<exists>c. index_opt arr i = Some c \<and> c \<in> set arr"
  by (simp add: index_opt_def)

lemma length_SEQUENTIAL_BLUE: "length SEQUENTIAL_BLUE = 8"
  by (simp add: SEQUENTIAL_BLUE_def)

lemma palette_index_bounds:
  fixes ratio :: real
  assumes "0 \<le> ratio" and "ratio \<le> 1"
  shows "0 \<le> Math_floor (ratio * 7) \<and> Math_floor (ratio * 7) < 8"
proof -
  have "0 \<le> ratio * 7" using assms(1) by simp
  moreover have "ratio * 7 < 8" using assms(2) by simp
  ultimately show ?thesis
    unfolding Math_floor_def by (simp add: floor_less_iff)
qed

text \<open>
  C6. For every value and bounds the colour returned is an entry of the palette: the
  index \<open>floor (clamp ((v - min) / (max - min)) * (size - 1))\<close> is inside the array.
  When the bounds are equal the result is the fixed entry at index 4, whatever the
  value, and no division takes place.
\<close>

theorem getSequentialColor_palette_member:
  "(\<exists>c. getSequentialColor v mn mx = Some c \<and> c \<in> set SEQUENTIAL_BLUE)
   \<and> getSequentialColor v mn mn = index_opt SEQUENTIAL_BLUE 4
   \<and> index_opt SEQUENTIAL_BLUE 4 = Some ''#2060a5''"
proof -
  have mid: "index_opt SEQUENTIAL_BLUE 4 = Some ''#2060a5''"
    by (simp add: index_opt_def SEQUENTIAL_BLUE_def)
  have deg: "getSequentialColor v mn mn = index_opt SEQUENTIAL_BLUE 4"
    by (simp add: getSequentialColor_def)
  have mem: "\<exists>c. getSequentialColor v mn mx = Some c \<and> c \<in> set SEQUENTIAL_BLUE"
  proof (cases "mx = mn")
    case True
    then show ?thesis
      using index_opt_member[of 4 SEQUENTIAL_BLUE]
      by (simp add: getSequentialColor_def length_SEQUENTIAL_BLUE)
  next
    case False
    define ratio where "ratio = min 1 (max 0 ((v - mn) / (mx - mn)))"
    have "0 \<le> ratio" "ratio \<le> 1" by (simp_all add: ratio_def)
    from palette_index_bounds[OF this]
    have "\<exists>c. index_opt SEQUENTIAL_BLUE (Math_floor (ratio * 7)) = Some c \<and> c \<in> set SEQUENTIAL_BLUE"
      by (intro index_opt_member) (simp_all add: length_SEQUENTIAL_BLUE)
    with False show ?thesis
      by (simp add: getSequentialColor_def Let_def length_SEQUENTIAL_BLUE ratio_def)
  qed
  from mem deg mid show ?thesis by blast
qed

theorem getSequentialColor_witness:
  "getSequentialColor 5 0 10 = Some ''#1a4d85'' \<and> ''#1a4d85'' \<in> set SEQUENTIAL_BLUE
   \<and> getSequentialColor 7 3 3 = Some ''#2060a5''"
proof -
  have a: "getSequentialColor 5 0 10 = Some ''#1a4d85''"
    by (simp add: getSequentialColor_def Let_def SEQUENTIAL_BLUE_def Math_floor_def index_opt_def)
  from getSequentialColor_palette_member [of 5 0 10]
  have "''#1a4d85'' \<in> set SEQUENTIAL_BLUE" by (simp add: a)
  moreover from getSequentialColor_palette_member [of 7 3 0]
  have "getSequentialColor 7 3 3 = Some ''#2060a5''" by simp
  ultimately show ?thesis using a by simp
qed

text \<open>
  C7. The ranking is in descending order of value; entities of equal value keep the
  order of the dataset's keys (also in the truncated list of top consumers, which is a
  prefix of the full ranking); ranking is a function of its inputs, and ranking a
  ranked list again leaves it as it is.
\<close>

theorem rank_descending_stable:
  "sorted_wrt (\<lambda>a b. rk_ttw b \<le> rk_ttw a) (allRanked_sorted c y)
   \<and> filter (\<lambda>e. rk_ttw e = v) (allRanked_sorted c y) = filter (\<lambda>e. rk_ttw e = v) (rankedRows c y)
   \<and> map rk_name (rankedRows c y) = Object_keys c
   \<and> Array_sort (\<lambda>a b. rk_ttw b - rk_ttw a) (allRanked_sorted c y) = allRanked_sorted c y
   \<and> sorted_wrt (\<lambda>a b. tc_ttw b \<le> tc_ttw a) (topConsumers m (Some c) yr)
   \<and> (\<exists>zs. filter (\<lambda>e. tc_ttw e = v) (consumerRows m c yr)
             = filter (\<lambda>e. tc_ttw e = v) (topConsumers m (Some c) yr) @ zs)
   \<and> map tc_iso3 (consumerRows m c yr) = Object_keys c"
proof -
  have 1: "sorted_wrt (\<lambda>a b. rk_ttw b \<le> rk_ttw a) (allRanked_sorted c y)"
    unfolding allRanked_sorted_def by (rule Array_sort_descending)
  have 2: "filter (\<lambda>e. rk_ttw e = v) (allRanked_sorted c y) = filter (\<lambda>e. rk_ttw e = v) (rankedRows c y)"
    unfolding allRanked_sorted_def by (rule Array_sort_stable)
  have 3: "Array_sort (\<lambda>a b. rk_ttw b - rk_ttw a) (allRanked_sorted c y) = allRanked_sorted c y"
    using 1 by (rule Array_sort_sorted_id)
  have 4: "sorted_wrt (\<lambda>a b. tc_ttw b \<le> tc_ttw a) (topConsumers m (Some c) yr)"
    by (simp add: topConsumers_def sorted_wrt_take Array_sort_descending)
  have 5: "\<exists>zs. filter (\<lambda>e. tc_ttw e = v) (consumerRows m c yr)
             = filter (\<lambda>e. tc_ttw e = v) (topConsumers m (Some c) yr) @ zs"
    using filter_take_prefix[of "\<lambda>e. tc_ttw e = v"
        "Array_sort (\<lambda>a b. tc_ttw b - tc_ttw a) (consumerRows m c yr)" 15]
    by (simp add: topConsumers_def Array_sort_stable)
  from 1 2 3 4 5 rankedRows_names consumerRows_names show ?thesis by blast
qed

theorem rank_witness:
  "filter (\<lambda>e. rk_ttw e = 5) (allRanked_sorted tied ''2023'')
     = [\<lparr>rk_name = ''Rice'', rk_ttw = 5\<rparr>, \<lparr>rk_name = ''Maize'', rk_ttw = 5\<rparr>]
   \<and> map rk_name (allRanked_sorted tied ''2023'') = [''Wheat'', ''Rice'', ''Maize'', ''Oats'']"
proof -
  from rank_descending_stable [of tied "''2023''" 5]
  have "filter (\<lambda>e. rk_ttw e = 5) (allRanked_sorted tied ''2023'')
          = filter (\<lambda>e. rk_ttw e = 5) (rankedRows tied ''2023'')"
    by blast
  then show ?thesis by (simp add: tied_rows tied_sorted)
qed

text \<open>
  C8. At every index of a series that is built, for an own entry of the dataset or for
  an inherited value, the two values are the resolved \<open>ttw\<close> of the year (zero when
  missing) divided by 1000 and then rounded: the rounding is applied to the scaled
  value, and the result is within one half of it.
\<close>

theorem timeSeries_scaled_then_rounded:
  "\<forall>i<14. (let p = timeSeries (Some v) ! i;
               y = yd (Some v) (String_num (2010 + i))
           in year p = 2010 + i
            \<and> Domestic p = Math_round (domTtw y / 1000)
            \<and> International p = Math_round (bilTtw y / 1000)
            \<and> \<bar>real_of_int (Domestic p) - domTtw y / 1000\<bar> \<le> 1 / 2
            \<and> \<bar>real_of_int (International p) - bilTtw y / 1000\<bar> \<le> 1 / 2)"
proof (intro allI impI)
  fix i :: nat assume i: "i < 14"
  let ?p = "timeSeries (Some v) ! i"
  let ?y = "yd (Some v) (String_num (2010 + i))"
  have y: "?y = readYear v (String_num (2010 + i))" by (simp add: yd_def)
  have 1: "year ?p = 2010 + i" by (simp add: timeSeries_nth[OF i])
  have 2: "Domestic ?p = Math_round (domTtw ?y / 1000)"
    by (simp add: timeSeries_nth[OF i] rounded_thousands_eq domTtw_def y)
  have 3: "International ?p = Math_round (bilTtw ?y / 1000)"
    by (simp add: timeSeries_nth[OF i] rounded_thousands_eq bilTtw_def y)
  have 4: "\<bar>real_of_int (Domestic ?p) - domTtw ?y / 1000\<bar> \<le> 1 / 2"
    unfolding 2 by (rule Math_round_nearest)
  have 5: "\<bar>real_of_int (International ?p) - bilTtw ?y / 1000\<bar> \<le> 1 / 2"
    unfolding 3 by (rule Math_round_nearest)
  show "let p = ?p; y = ?y
        in year p = 2010 + i
            \<and> Domestic p = Math_round (domTtw y / 1000)
            \<and> International p = Math_round (bilTtw y / 1000)
            \<and> \<bar>real_of_int (Domestic p) - domTtw y / 1000\<bar> \<le> 1 / 2
            \<and> \<bar>real_of_int (International p) - bilTtw y / 1000\<bar> \<le> 1 / 2"
    unfolding Let_def using 1 2 3 4 5 by blast
qed

theorem timeSeries_rounding_witness:
  "Domestic (timeSeries (Some (Own sampleYears)) ! 0) = 1
   \<and> International (timeSeries (Some (Own sampleYears)) ! 0) = 2
   \<and> Domestic (timeSeries (Some (Own sampleYears)) ! 1) = 3
   \<and> Domestic (timeSeries (Some (Own sampleYears)) ! 3) = 0
   \<and> year (timeSeries (Some (Own sampleYears)) ! 3) = 2013"
proof -
  have y0: "yd (Some (Own sampleYears)) (String_num 2010)
              = Some \<lparr>bilateral = Some (route 1500), domestic = Some (route 1499)\<rparr>"
    and y1: "yd (Some (Own sampleYears)) (String_num 2011)
              = Some \<lparr>bilateral = None, domestic = Some (route 2500)\<rparr>"
    and y3: "yd (Some (Own sampleYears)) (String_num 2013)
              = Some \<lparr>bilateral = Some (route 0), domestic = Some (route 499)\<rparr>"
    by (simp_all add: sample_strings yd_def readYear_def getProp_def sampleYears_def)
  have lt: "(0::nat) < 14" "(1::nat) < 14" "(3::nat) < 14" by simp_all
  from timeSeries_scaled_then_rounded [of "Own sampleYears"] lt(1)
  have "Domestic (timeSeries (Some (Own sampleYears)) ! 0)
          = Math_round (domTtw (yd (Some (Own sampleYears)) (String_num (2010 + 0))) / 1000)
      \<and> International (timeSeries (Some (Own sampleYears)) ! 0)
          = Math_round (bilTtw (yd (Some (Own sampleYears)) (String_num (2010 + 0))) / 1000)"
    unfolding Let_def by blast
  then have 0: "Domestic (timeSeries (Some (Own sampleYears)) ! 0) = 1
      \<and> International (timeSeries (Some (Own sampleYears)) ! 0) = 2"
    by (simp add: y0 domTtw_def bilTtw_def nullish_def route_def Math_round_def)
  from timeSeries_scaled_then_rounded [of "Own sampleYears"] lt(2)
  have "Domestic (timeSeries (Some (Own sampleYears)) ! 1)
          = Math_round (domTtw (yd (Some (Own sampleYears)) (String_num (2010 + 1))) / 1000)"
    unfolding Let_def by blast
  then have 1: "Domestic (timeSeries (Some (Own sampleYears)) ! 1) = 3"
    by (simp add: y1 domTtw_def nullish_def route_def Math_round_def)
  from timeSeries_scaled_then_rounded [of "Own sampleYears"] lt(3)
  have "Domestic (timeSeries (Some (Own sampleYears)) ! 3)
          = Math_round (domTtw (yd (Some (Own sampleYears)) (String_num (2010 + 3))) / 1000)
      \<and> year (timeSeries (Some (Own sampleYears)) ! 3) = 2010 + 3"
    unfolding Let_def by blast
  then have 3: "Domestic (timeSeries (Some (Own sampleYears)) ! 3) = 0
      \<and> year (timeSeries (Some (Own sampleYears)) ! 3) = 2013"
    by (simp add: y3 domTtw_def nullish_def route_def Math_round_def)
  from 0 1 3 show ?thesis by blast
qed

section \<open>Transport factors: properties\<close>

text \<open>
  C9. When the commodity name is a key of the transport-factors table, the entry of
  that key is the one used, whatever the partial match would select; the partial match
  decides the entry only when the exact read finds nothing. (The exact read also finds
  something, with no rows to show, when the name is no key of the table but names a
  property every object inherits.)
\<close>

theorem factors_exact_match_first:
  "(getProp t commodity = Some tf \<longrightarrow>
      factors_tf t commodity = Some (Own tf)
      \<and> factors (Some t) commodity = Array_sort (\<lambda>a b. fr_ttw b - fr_ttw a) (factorRows tf))
   \<and> (readProp t commodity = None \<longrightarrow>
        factors_tf t commodity =
          (case fallbackKey t commodity of
             None \<Rightarrow> None
           | Some key \<Rightarrow> if truthy_str key then readProp t key else None))
   \<and> (factors_tf t commodity \<noteq> readProp t commodity \<longrightarrow> readProp t commodity = None)
   \<and> (readProp t commodity = Some Inherited \<longrightarrow>
        factors_tf t commodity = Some Inherited \<and> factors (Some t) commodity = [])"
  by (auto simp: factors_tf_def factors_def readProp_def ownProps_def factorRows_def
                 Object_entries_def Array_sort_def
           split: option.splits)

lemma sample_fallback: "fallbackKey sampleFactors ''Wheat'' = Some ''Wheat flour''"
  by (simp add: fallbackKey_def Object_keys_def sampleFactors_def partialMatch_def toLowerCase_def
        lower_char_def nullish_def split_first_def startsWith_def)

lemma sample_fallback2: "fallbackKey sampleFactors ''Wheat, durum'' = Some ''Wheat flour''"
  by (simp add: fallbackKey_def Object_keys_def sampleFactors_def partialMatch_def toLowerCase_def
        lower_char_def nullish_def split_first_def startsWith_def)

theorem factors_witness:
  "getProp sampleFactors ''Wheat'' = Some (snd (sampleFactors ! 1))
   \<and> fallbackKey sampleFactors ''Wheat'' = Some ''Wheat flour''
   \<and> factors_tf sampleFactors ''Wheat'' = Some (Own (snd (sampleFactors ! 1)))
   \<and> map modeKey (factors (Some sampleFactors) ''Wheat'') = [''air'', ''maritime'']
   \<and> readProp sampleFactors ''Wheat, durum'' = None
   \<and> factors_tf sampleFactors ''Wheat, durum'' = Some (Own (snd (sampleFactors ! 0)))
   \<and> readProp sampleFactors ''valueOf'' = Some Inherited
   \<and> factors (Some sampleFactors) ''valueOf'' = []"
proof -
  have e: "getProp sampleFactors ''Wheat'' = Some (snd (sampleFactors ! 1))"
    by (simp add: getProp_def sampleFactors_def)
  have n: "readProp sampleFactors ''Wheat, durum'' = None"
    by (simp add: readProp_def getProp_def sampleFactors_def Object_prototype_names_def)
  have f: "readProp sampleFactors ''Wheat flour'' = Some (Own (snd (sampleFactors ! 0)))"
    by (simp add: readProp_def getProp_def sampleFactors_def)
  have v: "readProp sampleFactors ''valueOf'' = Some Inherited"
    by (simp add: readProp_def getProp_def sampleFactors_def Object_prototype_names_def)
  from factors_exact_match_first [of sampleFactors "''Wheat''" "snd (sampleFactors ! 1)"] e
  have 1: "factors_tf sampleFactors ''Wheat'' = Some (Own (snd (sampleFactors ! 1)))"
    and 2: "factors (Some sampleFactors) ''Wheat''
              = Array_sort (\<lambda>a b. fr_ttw b - fr_ttw a) (factorRows (snd (sampleFactors ! 1)))"
    by blast+
  have 3: "map modeKey (factors (Some sampleFactors) ''Wheat'') = [''air'', ''maritime'']"
    unfolding 2 by (simp add: sampleFactors_def factorRows_def Object_entries_def Array_sort_def)
  from factors_exact_match_first [of sampleFactors "''Wheat, durum''"] n
  have "factors_tf sampleFactors ''Wheat, durum'' =
          (case fallbackKey sampleFactors ''Wheat, durum'' of
             None \<Rightarrow> None
           | Some key \<Rightarrow> if truthy_str key then readProp sampleFactors key else None)"
    by blast
  then have 4: "factors_tf sampleFactors ''Wheat, durum'' = Some (Own (snd (sampleFactors ! 0)))"
    by (simp add: sample_fallback2 truthy_str_def f)
  from factors_exact_match_first [of sampleFactors "''valueOf''"] v
  have 5: "factors (Some sampleFactors) ''valueOf'' = []" by blast
  from e sample_fallback 1 3 n 4 v 5 show ?thesis by blast
qed

section \<open>Top trade partners: properties\<close>

lemma top10_partners:
  fixes entry :: "BilateralFlow \<Rightarrow> Partner" and P :: "BilateralFlow \<Rightarrow> bool"
    and flows :: "BilateralFlow list"
  assumes ttw: "\<And>f. p_ttw (entry f) = flow_ttw f"
  defines "res \<equiv> map entry (take 10 (Array_sort (\<lambda>a b. flow_ttw b - flow_ttw a) (filter P flows)))"
  shows "length res \<le> 10"
    and "\<forall>e\<in>set res. \<exists>f\<in>set flows. P f \<and> e = entry f"
    and "sorted_wrt (\<lambda>a b. p_ttw b \<le> p_ttw a) res"
proof -
  let ?s = "Array_sort (\<lambda>a b. flow_ttw b - flow_ttw a) (filter P flows)"
  show "length res \<le> 10" by (simp add: res_def)
  have "set (take 10 ?s) \<subseteq> set (filter P flows)"
    using set_take_subset[of 10 ?s] by (simp only: Array_sort_set)
  then show "\<forall>e\<in>set res. \<exists>f\<in>set flows. P f \<and> e = entry f"
    by (auto simp: res_def)
  have "sorted_wrt (\<lambda>a b. flow_ttw b \<le> flow_ttw a) (take 10 ?s)"
    by (rule sorted_wrt_take) (rule Array_sort_descending)
  then show "sorted_wrt (\<lambda>a b. p_ttw b \<le> p_ttw a) res"
    by (simp add: res_def sorted_wrt_map ttw)
qed

text \<open>
  C10. Each of the two partner lists has at most 10 entries; every entry of the import
  sources is built from a flow of the year's \<open>all\<close> bucket whose \<open>to\<close> is the
  selected country, every entry of the export destinations from one whose \<open>from\<close>
  is the selected country; and each list is in descending order of \<open>ttw\<close>.
\<close>

theorem top_partners_bounded_directed_sorted:
  "(let src = topSources countryMeta (Some b) yearStr iso3;
        dst = topDest countryMeta (Some b) yearStr iso3
    in length src \<le> 10 \<and> length dst \<le> 10
     \<and> (\<forall>e\<in>set src. \<exists>f\<in>set (allBucket b yearStr). flow_to f = iso3
            \<and> p_iso3 e = flow_from f \<and> p_ttw e = flow_ttw f
            \<and> p_name e = getCountryName countryMeta (flow_from f))
     \<and> (\<forall>e\<in>set dst. \<exists>f\<in>set (allBucket b yearStr). flow_from f = iso3
            \<and> p_iso3 e = flow_to f \<and> p_ttw e = flow_ttw f
            \<and> p_name e = getCountryName countryMeta (flow_to f))
     \<and> sorted_wrt (\<lambda>x y. p_ttw y \<le> p_ttw x) src
     \<and> sorted_wrt (\<lambda>x y. p_ttw y \<le> p_ttw x) dst)
   \<and> topSources countryMeta None yearStr iso3 = []
   \<and> topDest countryMeta None yearStr iso3 = []"
proof -
  let ?src = "topSources countryMeta (Some b) yearStr iso3"
  let ?dst = "topDest countryMeta (Some b) yearStr iso3"
  have s: "?src = map (sourceEntry countryMeta)
      (take 10 (Array_sort (\<lambda>a b. flow_ttw b - flow_ttw a)
                 (filter (\<lambda>f. flow_to f = iso3) (allBucket b yearStr))))"
    by (simp add: topSources_def Let_def)
  have d: "?dst = map (destEntry countryMeta)
      (take 10 (Array_sort (\<lambda>a b. flow_ttw b - flow_ttw a)
                 (filter (\<lambda>f. flow_from f = iso3) (allBucket b yearStr))))"
    by (simp add: topDest_def Let_def)
  have s1: "length ?src \<le> 10" unfolding s by (rule top10_partners) (simp add: sourceEntry_def)
  have d1: "length ?dst \<le> 10" unfolding d by (rule top10_partners) (simp add: destEntry_def)
  have "\<forall>e\<in>set ?src. \<exists>f\<in>set (allBucket b yearStr). flow_to f = iso3 \<and> e = sourceEntry countryMeta f"
    unfolding s by (rule top10_partners) (simp add: sourceEntry_def)
  then have s2: "\<forall>e\<in>set ?src. \<exists>f\<in>set (allBucket b yearStr). flow_to f = iso3
            \<and> p_iso3 e = flow_from f \<and> p_ttw e = flow_ttw f
            \<and> p_name e = getCountryName countryMeta (flow_from f)"
    by (fastforce simp: sourceEntry_def)
  have "\<forall>e\<in>set ?dst. \<exists>f\<in>set (allBucket b yearStr). flow_from f = iso3 \<and> e = destEntry countryMeta f"
    unfolding d by (rule top10_partners) (simp add: destEntry_def)
  then have d2: "\<forall>e\<in>set ?dst. \<exists>f\<in>set (allBucket b yearStr). flow_from f = iso3
            \<and> p_iso3 e = flow_to f \<and> p_ttw e = flow_ttw f
            \<and> p_name e = getCountryName countryMeta (flow_to f)"
    by (fastforce simp: destEntry_def)
  have s3: "sorted_wrt (\<lambda>x y. p_ttw y \<le> p_ttw x) ?src"
    unfolding s by (rule top10_partners) (simp add: sourceEntry_def)
  have d3: "sorted_wrt (\<lambda>x y. p_ttw y \<le> p_ttw x) ?dst"
    unfolding d by (rule top10_partners) (simp add: destEntry_def)
  have n: "topSources countryMeta None yearStr iso3 = []" "topDest countryMeta None yearStr iso3 = []"
    by (simp_all add: topSources_def topDest_def)
  show ?thesis
    unfolding Let_def using s1 d1 s2 d2 s3 d3 n by blast
qed

lemma sample_all:
  "allBucket sampleFlows ''2023'' =
     [flow ''MEX'' ''USA'' 50000 ''land'', flow ''USA'' ''CAN'' 150000 ''land'',
      flow ''CHN'' ''USA'' 200000 ''maritime'', flow ''USA'' ''JPN'' 90000 ''air'',
      flow ''BRA'' ''USA'' 300000 ''maritime'']"
  by (simp add: allBucket_def sampleFlows_def getProp_def nullish_def)

theorem top_partners_witness:
  "topSources (Some sampleMeta) (Some sampleFlows) ''2023'' ''USA''
     = [\<lparr>p_name = ''BRA'', p_ttw = 300000, p_iso3 = ''BRA''\<rparr>,
        \<lparr>p_name = ''China'', p_ttw = 200000, p_iso3 = ''CHN''\<rparr>,
        \<lparr>p_name = ''MEX'', p_ttw = 50000, p_iso3 = ''MEX''\<rparr>]
   \<and> topDest (Some sampleMeta) (Some sampleFlows) ''2023'' ''USA''
     = [\<lparr>p_name = ''CAN'', p_ttw = 150000, p_iso3 = ''CAN''\<rparr>,
        \<lparr>p_name = ''JPN'', p_ttw = 90000, p_iso3 = ''JPN''\<rparr>]
   \<and> list_all (\<lambda>e. \<exists>f\<in>set (allBucket sampleFlows ''2023'').
                     flow_to f = ''USA'' \<and> p_iso3 e = flow_from f)
        (topSources (Some sampleMeta) (Some sampleFlows) ''2023'' ''USA'')
   \<and> list_all (\<lambda>e. \<exists>f\<in>set (allBucket sampleFlows ''2023'').
                     flow_from f = ''USA'' \<and> p_iso3 e = flow_to f)
        (topDest (Some sampleMeta) (Some sampleFlows) ''2023'' ''USA'')"
proof -
  have 1: "topSources (Some sampleMeta) (Some sampleFlows) ''2023'' ''USA''
     = [\<lparr>p_name = ''BRA'', p_ttw = 300000, p_iso3 = ''BRA''\<rparr>,
        \<lparr>p_name = ''China'', p_ttw = 200000, p_iso3 = ''CHN''\<rparr>,
        \<lparr>p_name = ''MEX'', p_ttw = 50000, p_iso3 = ''MEX''\<rparr>]"
    by (simp add: topSources_def Let_def sample_all flow_def Array_sort_def sourceEntry_def
                  getCountryName_def sampleMeta_def getProp_def nullish_def)
  have 2: "topDest (Some sampleMeta) (Some sampleFlows) ''2023'' ''USA''
     = [\<lparr>p_name = ''CAN'', p_ttw = 150000, p_iso3 = ''CAN''\<rparr>,
        \<lparr>p_name = ''JPN'', p_ttw = 90000, p_iso3 = ''JPN''\<rparr>]"
    by (simp add: topDest_def Let_def sample_all flow_def Array_sort_def destEntry_def
                  getCountryName_def sampleMeta_def getProp_def nullish_def)
  from top_partners_bounded_directed_sorted
         [of "Some sampleMeta" sampleFlows "''2023''" "''USA''"]
  have "list_all (\<lambda>e. \<exists>f\<in>set (allBucket sampleFlows ''2023'').
                     flow_to f = ''USA'' \<and> p_iso3 e = flow_from f)
        (topSources (Some sampleMeta) (Some sampleFlows) ''2023'' ''USA'')
   \<and> list_all (\<lambda>e. \<exists>f\<in>set (allBucket sampleFlows ''2023'').
                     flow_from f = ''USA'' \<and> p_iso3 e = flow_to f)
        (topDest (Some sampleMeta) (Some sampleFlows) ''2023'' ''USA'')"
    unfolding Let_def list_all_iff by blast
  with 1 2 show ?thesis by blast
qed

end
